theory Spec2Isabelle
  imports Complex_Main "HOL-Library.Multiset"
begin

section \<open>Conventions of the embedding\<close>

text \<open>
  The simulation is written in JavaScript on top of p5.js and TensorFlow.js. A JavaScript
  number is modelled as a \<^typ>\<open>real\<close>: arithmetic is exact, and NaN and the infinities do
  not occur. Counters that the code only ever sets to 0 and increments (\<open>framesAlive\<close>,
  \<open>idleFrames\<close>, \<open>collisions\<close>, \<open>frameCount_\<close>, \<open>generation\<close>) are natural numbers.
  The two globals of \<open>mapa_gerado.js\<close>, the tile grid \<open>mapa\<close> and the cell size
  \<open>tileSize\<close>, are arguments of every function that reads them; \<open>tileSize\<close> is
  meant positive. A grid cell is the pair \<open>(col, row)\<close>, as \<open>createVector(col, row)\<close>
  builds it in \<open>car.js\<close>; the string key \<open>`${col},${row}`\<close> of the code's Map and Set
  determines the pair and is modelled by it.

  The names are those of the source, but for the leading underscore of the private
  methods and fields of \<open>Car\<close>, for \<open>frameCount_\<close>, which is \<open>frameCount\<close> here, and for the
  field \<open>values\<close> of the exported weights, which is \<open>values'\<close>. The functions of p5.js
  that clash with a constant of the library carry the suffix \<open>_p5\<close>. Rendering, the HUD and
  the toasts change no state and are left out.
\<close>

type_synonym vec = "real \<times> real"
type_synonym cell = "int \<times> int"
type_synonym grid = "int list list"

subsection \<open>The p5.js helpers used by car.js\<close>

definition radians :: "real \<Rightarrow> real" where
  "radians deg = deg * pi / 180"

definition dist_p5 :: "real \<Rightarrow> real \<Rightarrow> real \<Rightarrow> real \<Rightarrow> real" where
  "dist_p5 x1 y1 x2 y2 = sqrt ((x2 - x1)\<^sup>2 + (y2 - y1)\<^sup>2)"

text \<open>\<open>map(n, start1, stop1, start2, stop2)\<close> of p5.js, without its optional clamping.\<close>

definition map_p5 :: "real \<Rightarrow> real \<Rightarrow> real \<Rightarrow> real \<Rightarrow> real \<Rightarrow> real" where
  "map_p5 n start1 stop1 start2 stop2 =
     (n - start1) / (stop1 - start1) * (stop2 - start2) + start2"

definition fromAngle :: "real \<Rightarrow> vec" where
  "fromAngle a = (cos a, sin a)"

definition mult :: "vec \<Rightarrow> real \<Rightarrow> vec" where
  "mult v k = (fst v * k, snd v * k)"

definition add :: "vec \<Rightarrow> vec \<Rightarrow> vec" where
  "add v w = (fst v + fst w, snd v + snd w)"

definition mag :: "vec \<Rightarrow> real" where
  "mag v = sqrt ((fst v)\<^sup>2 + (snd v)\<^sup>2)"

subsection \<open>Cerebro: the network's parameters\<close>

text \<open>
  A tensor is its shape and its flat values. \<open>getWeights()\<close> of the sequential model of
  \<open>Cerebro\<close> is the list kernel, bias, kernel, bias of the two dense layers.
\<close>

record tensor =
  shape :: "nat list"
  dataSync :: "real list"

record Cerebro =
  weights :: "tensor list"

definition clone :: "tensor \<Rightarrow> tensor" where
  "clone w = \<lparr>shape = shape w, dataSync = dataSync w\<rparr>"

definition copiaCerebro :: "Cerebro \<Rightarrow> Cerebro" where
  "copiaCerebro b = \<lparr>weights = map clone (weights b)\<rparr>"

subsection \<open>Car: the agent's state\<close>

record Car =
  x :: real
  y :: real
  vel :: vec
  angle :: real
  alive :: bool
  finished :: bool
  brain :: Cerebro
  sensors :: "real list"
  readings :: "real list"
  score :: real
  distanceTravelled :: real
  lastPosition :: vec
  accumulatedSpeed :: real
  framesAlive :: nat
  idleFrames :: nat
  collisions :: nat
  finishCache :: "cell list option"
  distanceCache :: "(cell \<times> real) list"
  distToFinish :: real
  bestDist :: real

text \<open>
  \<open>mapa[row][col]\<close> for a row inside the grid: the tile code, or \<open>None\<close> for JavaScript's
  \<open>undefined\<close> when the row is shorter than the column asked for.
\<close>

definition tileAt :: "grid \<Rightarrow> int \<Rightarrow> int \<Rightarrow> int option" where
  "tileAt mapa row col =
     (if 0 \<le> row \<and> row < int (length mapa) \<and> 0 \<le> col \<and> col < int (length (mapa ! nat row))
      then Some (mapa ! nat row ! nat col) else None)"

text \<open>The bounds test shared by the sensor, the collision check and the walkability check.\<close>

definition outside :: "grid \<Rightarrow> int \<Rightarrow> int \<Rightarrow> bool" where
  "outside mapa row col =
     (row < 0 \<or> int (length mapa) \<le> row \<or> col < 0 \<or> int (length (mapa ! 0)) \<le> col)"

subsection \<open>Sensors\<close>

text \<open>The loop \<open>for (let d = 0; d < 200; d += 5)\<close> of \<open>_sensorReading\<close>, from \<open>d\<close> on.\<close>

function rayFrom :: "grid \<Rightarrow> real \<Rightarrow> real \<Rightarrow> real \<Rightarrow> real \<Rightarrow> int \<Rightarrow> real" where
  "rayFrom mapa tileSize cx cy ang d =
     (if d < 200 then
        (let px = cx + cos ang * real_of_int d;
             py = cy + sin ang * real_of_int d;
             row = \<lfloor>py / tileSize\<rfloor>;
             col = \<lfloor>px / tileSize\<rfloor>
         in if outside mapa row col then real_of_int d
            else if tileAt mapa row col = Some 1 then real_of_int d
            else rayFrom mapa tileSize cx cy ang (d + 5))
      else 200)"
  by pat_completeness auto
termination
  by (relation "measure (\<lambda>(mapa, tileSize, cx, cy, ang, d). nat (200 - d))") auto

declare rayFrom.simps [simp del]

definition sensorReading :: "grid \<Rightarrow> real \<Rightarrow> Car \<Rightarrow> real \<Rightarrow> real" where
  "sensorReading mapa tileSize c offset =
     rayFrom mapa tileSize (x c) (y c) (angle c + offset) 0"

definition hasCollided :: "grid \<Rightarrow> real \<Rightarrow> Car \<Rightarrow> bool" where
  "hasCollided mapa tileSize c =
     (let row = \<lfloor>y c / tileSize\<rfloor>; col = \<lfloor>x c / tileSize\<rfloor>
      in if outside mapa row col then True else tileAt mapa row col = Some 1)"

subsection \<open>Distance to the finish line\<close>

text \<open>\<open>_tileWalkable(pos)\<close>: inside the grid and not a wall.\<close>

definition tileWalkable :: "grid \<Rightarrow> cell \<Rightarrow> bool" where
  "tileWalkable mapa pos =
     (if outside mapa (snd pos) (fst pos) then False
      else tileAt mapa (snd pos) (fst pos) \<noteq> Some 1)"

text \<open>The scan of \<open>_finishTiles\<close>: every position holding tile code 2, row by row.\<close>

definition scanFinish :: "grid \<Rightarrow> cell list" where
  "scanFinish mapa =
     concat (map (\<lambda>r. map (\<lambda>c. (int c, int r))
                          (filter (\<lambda>c. mapa ! r ! c = 2) [0..<length (mapa ! r)]))
                 [0..<length mapa])"

definition finishTiles :: "grid \<Rightarrow> Car \<Rightarrow> cell list \<times> Car" where
  "finishTiles mapa c =
     (case finishCache c of
        None \<Rightarrow> (scanFinish mapa, c\<lparr>finishCache := Some (scanFinish mapa)\<rparr>)
      | Some ts \<Rightarrow> (ts, c))"

text \<open>\<open>for (const t of targets) if (pos.x === t.x && pos.y === t.y) ...\<close>\<close>

definition atTarget :: "cell \<Rightarrow> cell list \<Rightarrow> bool" where
  "atTarget pos targets = list_ex (\<lambda>t. fst pos = fst t \<and> snd pos = snd t) targets"

definition dirs :: "cell list" where
  "dirs = [(0, -1), (1, 0), (0, 1), (-1, 0)]"

text \<open>
  One pass of the inner loop over \<open>dirs\<close>: the state is the visited set (in insertion
  order) and the queue of positions with their step counts.
\<close>

definition visitDir ::
  "grid \<Rightarrow> cell \<Rightarrow> nat \<Rightarrow> cell list \<times> (cell \<times> nat) list \<Rightarrow> cell \<Rightarrow>
   cell list \<times> (cell \<times> nat) list" where
  "visitDir mapa pos steps vq d =
     (let np = (fst pos + fst d, snd pos + snd d)
      in if np \<notin> set (fst vq) \<and> tileWalkable mapa np
         then (fst vq @ [np], snd vq @ [(np, steps + 1)])
         else vq)"

definition walkableCells :: "grid \<Rightarrow> cell set" where
  "walkableCells mapa = {p. tileWalkable mapa p}"

lemma walkableCells_finite: "finite (walkableCells mapa)"
proof -
  have "walkableCells mapa \<subseteq> {0..<int (length (mapa ! 0))} \<times> {0..<int (length mapa)}"
    by (auto simp: walkableCells_def tileWalkable_def outside_def split: if_splits)
  then show ?thesis
    by (rule finite_subset) simp
qed

definition bfsMeasure :: "grid \<Rightarrow> cell list \<Rightarrow> (cell \<times> nat) list \<Rightarrow> nat" where
  "bfsMeasure mapa visited queue =
     2 * card (walkableCells mapa - set visited) + length queue"

lemma visitDir_measure:
  "bfsMeasure mapa (fst (visitDir mapa pos steps vq d)) (snd (visitDir mapa pos steps vq d))
     \<le> bfsMeasure mapa (fst vq) (snd vq)"
proof (cases "(fst pos + fst d, snd pos + snd d) \<notin> set (fst vq)
              \<and> tileWalkable mapa (fst pos + fst d, snd pos + snd d)")
  case True
  let ?np = "(fst pos + fst d, snd pos + snd d)"
  let ?W = "walkableCells mapa - set (fst vq)"
  have in_W: "?np \<in> ?W"
    using True by (simp add: walkableCells_def)
  have fin: "finite ?W"
    using walkableCells_finite by simp
  have eq: "walkableCells mapa - insert ?np (set (fst vq)) = ?W - {?np}"
    by auto
  have "card (?W - {?np}) = card ?W - 1" and "0 < card ?W"
    using in_W fin by (simp_all add: card_gt_0_iff) blast
  then show ?thesis
    using True by (simp add: visitDir_def bfsMeasure_def eq Let_def)
next
  case False
  then show ?thesis
    by (auto simp: visitDir_def Let_def)
qed

lemma foldl_visitDir_measure:
  "bfsMeasure mapa (fst (foldl (visitDir mapa pos steps) vq ds))
                   (snd (foldl (visitDir mapa pos steps) vq ds))
     \<le> bfsMeasure mapa (fst vq) (snd vq)"
proof (induction ds arbitrary: vq)
  case Nil
  show ?case by simp
next
  case (Cons d ds)
  have "bfsMeasure mapa (fst (foldl (visitDir mapa pos steps) (visitDir mapa pos steps vq d) ds))
                        (snd (foldl (visitDir mapa pos steps) (visitDir mapa pos steps vq d) ds))
          \<le> bfsMeasure mapa (fst (visitDir mapa pos steps vq d)) (snd (visitDir mapa pos steps vq d))"
    by (rule Cons.IH)
  also have "\<dots> \<le> bfsMeasure mapa (fst vq) (snd vq)"
    by (rule visitDir_measure)
  finally show ?case by simp
qed

text \<open>
  The \<open>while (queue.length > 0)\<close> loop of \<open>_bfs\<close>. It ends because every pass either
  shortens the queue or marks a walkable cell of the finite grid as visited.
\<close>

function bfsLoop ::
  "grid \<Rightarrow> real \<Rightarrow> cell list \<Rightarrow> cell list \<Rightarrow> (cell \<times> nat) list \<Rightarrow> real" where
  "bfsLoop mapa tileSize targets visited [] = 9999"
| "bfsLoop mapa tileSize targets visited ((pos, steps) # queue) =
     (if atTarget pos targets then real steps * tileSize
      else bfsLoop mapa tileSize targets
             (fst (foldl (visitDir mapa pos steps) (visited, queue) dirs))
             (snd (foldl (visitDir mapa pos steps) (visited, queue) dirs)))"
  by pat_completeness auto
termination
proof (relation "measure (\<lambda>(mapa, tileSize, targets, visited, queue). bfsMeasure mapa visited queue)")
  show "wf (measure (\<lambda>(mapa, tileSize, targets, visited, queue). bfsMeasure mapa visited queue))"
    by simp
next
  fix mapa :: grid and tileSize :: real and targets visited :: "cell list"
    and pos :: cell and steps :: nat and queue :: "(cell \<times> nat) list"
  have "bfsMeasure mapa (fst (foldl (visitDir mapa pos steps) (visited, queue) dirs))
                        (snd (foldl (visitDir mapa pos steps) (visited, queue) dirs))
          \<le> bfsMeasure mapa visited queue"
    using foldl_visitDir_measure [of mapa pos steps "(visited, queue)" dirs] by simp
  also have "\<dots> < bfsMeasure mapa visited ((pos, steps) # queue)"
    by (simp add: bfsMeasure_def)
  finally show "((mapa, tileSize, targets,
                  fst (foldl (visitDir mapa pos steps) (visited, queue) dirs),
                  snd (foldl (visitDir mapa pos steps) (visited, queue) dirs)),
                 (mapa, tileSize, targets, visited, (pos, steps) # queue))
                \<in> measure (\<lambda>(mapa, tileSize, targets, visited, queue). bfsMeasure mapa visited queue)"
    by (simp add: case_prod_beta)
qed

definition bfs :: "grid \<Rightarrow> real \<Rightarrow> cell \<Rightarrow> cell list \<Rightarrow> real" where
  "bfs mapa tileSize start targets =
     (if atTarget start targets then 0
      else bfsLoop mapa tileSize targets [start] [(start, 0)])"

text \<open>
  \<open>_bfsDistanceToFinish\<close>: the cache is a JavaScript Map, which keeps insertion order;
  a new key goes to the end and, past 100 entries, the first one is deleted.
\<close>

definition bfsDistanceToFinish :: "grid \<Rightarrow> real \<Rightarrow> Car \<Rightarrow> real \<times> Car" where
  "bfsDistanceToFinish mapa tileSize c =
     (let col = \<lfloor>x c / tileSize\<rfloor>;
          row = \<lfloor>y c / tileSize\<rfloor>;
          key = (col, row)
      in case map_of (distanceCache c) key of
           Some v \<Rightarrow> (v, c)
         | None \<Rightarrow>
             (let (targets, c1) = finishTiles mapa c
              in if length targets = 0 then (9999, c1)
                 else (let d = bfs mapa tileSize key targets;
                           cache1 = distanceCache c1 @ [(key, d)];
                           cache2 = (if length cache1 > 100 then tl cache1 else cache1)
                       in (d, c1\<lparr>distanceCache := cache2\<rparr>))))"

subsection \<open>Car: construction, the per-tick update and the fitness\<close>

definition initialSensors :: "real list" where
  "initialSensors =
     [radians (-90), radians (-60), radians (-40), radians (-20), 0,
      radians 20, radians 40, radians 60, radians 90]"

text \<open>
  The constructor, called with a brain. \<open>distToFinish\<close> and \<open>bestDist\<close> do not exist
  before the first distance query, which does not read them.
\<close>

definition newCar :: "grid \<Rightarrow> real \<Rightarrow> real \<Rightarrow> real \<Rightarrow> Cerebro \<Rightarrow> Car" where
  "newCar mapa tileSize x0 y0 b =
     (let c0 = \<lparr>x = x0, y = y0, vel = (0, 0), angle = 0, alive = True, finished = False,
                brain = copiaCerebro b, sensors = initialSensors,
                readings = replicate (length initialSensors) 200,
                score = 0, distanceTravelled = 0, lastPosition = (x0, y0),
                accumulatedSpeed = 0, framesAlive = 0, idleFrames = 0, collisions = 0,
                finishCache = None, distanceCache = [], distToFinish = 0, bestDist = 0\<rparr>;
          r = bfsDistanceToFinish mapa tileSize c0
      in (snd r)\<lparr>distToFinish := fst r, bestDist := fst r\<rparr>)"

text \<open>
  \<open>pensar\<close> is the forward pass of the TensorFlow.js model: a function of the brain and of
  the nine inputs that yields rotation and throttle. It is an argument of \<open>update\<close>.
\<close>

type_synonym inference = "Cerebro \<Rightarrow> real list \<Rightarrow> real \<times> real"

text \<open>Line 68 of \<open>update\<close>: the inputs handed to the network.\<close>

definition inputs :: "Car \<Rightarrow> real list" where
  "inputs c = map (\<lambda>v. map_p5 v 0 200 1 0) (readings c)"

text \<open>Lines 59 to 77 of \<open>update\<close>: odometry, sensing, the decision, friction and the move.\<close>

definition senseAndMove :: "inference \<Rightarrow> grid \<Rightarrow> real \<Rightarrow> Car \<Rightarrow> Car" where
  "senseAndMove pensar mapa tileSize c =
     (let dFrame = dist_p5 (x c) (y c) (fst (lastPosition c)) (snd (lastPosition c));
          c1 = c\<lparr>distanceTravelled := distanceTravelled c + dFrame, lastPosition := (x c, y c)\<rparr>;
          c2 = c1\<lparr>readings := map (\<lambda>offset. sensorReading mapa tileSize c1 offset) (sensors c1)\<rparr>;
          out = pensar (brain c2) (inputs c2);
          c3 = c2\<lparr>angle := angle c2 + fst out * 0.1\<rparr>;
          c4 = c3\<lparr>vel := add (vel c3) (mult (fromAngle (angle c3)) (snd out * 0.3))\<rparr>;
          c5 = c4\<lparr>vel := mult (vel c4) 0.95\<rparr>
      in c5\<lparr>x := x c5 + fst (vel c5), y := y c5 + snd (vel c5),
             framesAlive := framesAlive c5 + 1\<rparr>)"

definition idleCount :: "Car \<Rightarrow> Car" where
  "idleCount c =
     (if mag (vel c) < 0.1 then c\<lparr>idleFrames := idleFrames c + 1\<rparr>
      else c\<lparr>idleFrames := 0\<rparr>)"

definition speedBonus :: "Car \<Rightarrow> Car" where
  "speedBonus c =
     (let speed = mag (vel c);
          c1 = c\<lparr>accumulatedSpeed := accumulatedSpeed c + speed\<rparr>
      in if speed > 1.5 then c1\<lparr>score := score c1 + speed * 0.2\<rparr>
         else if speed > 0.5 then c1\<lparr>score := score c1 + speed * 0.15\<rparr>
         else c1)"

definition progressBonus :: "grid \<Rightarrow> real \<Rightarrow> Car \<Rightarrow> Car" where
  "progressBonus mapa tileSize c =
     (let prevDist = distToFinish c;
          r = bfsDistanceToFinish mapa tileSize c;
          c1 = (snd r)\<lparr>distToFinish := fst r\<rparr>;
          c2 = (if distToFinish c1 < prevDist
                then c1\<lparr>score := score c1 + (prevDist - distToFinish c1) * 0.3\<rparr> else c1)
      in if distToFinish c2 < bestDist c2 then c2\<lparr>bestDist := distToFinish c2\<rparr> else c2)"

definition finishDetection :: "grid \<Rightarrow> real \<Rightarrow> Car \<Rightarrow> Car" where
  "finishDetection mapa tileSize c =
     (if \<not> finished c then
        (let col = \<lfloor>x c / tileSize\<rfloor>; row = \<lfloor>y c / tileSize\<rfloor>
         in if row \<ge> 0 \<and> row < int (length mapa) \<and> col \<ge> 0 \<and> col < int (length (mapa ! 0))
               \<and> tileAt mapa row col = Some 2
            then c\<lparr>finished := True, score := score c + 2000, alive := False\<rparr>
            else c)
      else c)"

definition collisionDetection :: "grid \<Rightarrow> real \<Rightarrow> Car \<Rightarrow> Car" where
  "collisionDetection mapa tileSize c =
     (if hasCollided mapa tileSize c then
        (let c1 = c\<lparr>collisions := collisions c + 1\<rparr>;
             c2 = c1\<lparr>score := score c1 - 40 * real (collisions c1)\<rparr>
         in if collisions c2 > 2 then c2\<lparr>alive := False\<rparr> else c2)
      else c)"

text \<open>The scoring steps of a tick that is not cut short: lines 88 to 115.\<close>

definition scoring :: "grid \<Rightarrow> real \<Rightarrow> Car \<Rightarrow> Car" where
  "scoring mapa tileSize c =
     finishDetection mapa tileSize (progressBonus mapa tileSize (speedBonus c))"

definition update :: "inference \<Rightarrow> grid \<Rightarrow> real \<Rightarrow> Car \<Rightarrow> Car" where
  "update pensar mapa tileSize c =
     (if \<not> alive c then c
      else (let c1 = idleCount (senseAndMove pensar mapa tileSize c)
            in if idleFrames c1 > 300 then c1\<lparr>alive := False, score := score c1 - 100\<rparr>
               else collisionDetection mapa tileSize (scoring mapa tileSize c1)))"

text \<open>
  The car as the collision step of a tick finds it, and the ticks that reach that step
  (the car is alive and the idle counter has not passed 300) with the car on a wall tile
  or outside the grid.
\<close>

definition beforeCollision :: "inference \<Rightarrow> grid \<Rightarrow> real \<Rightarrow> Car \<Rightarrow> Car" where
  "beforeCollision P M T c = scoring M T (idleCount (senseAndMove P M T c))"

definition collides :: "inference \<Rightarrow> grid \<Rightarrow> real \<Rightarrow> Car \<Rightarrow> bool" where
  "collides P M T c =
     (alive c \<and> idleFrames (idleCount (senseAndMove P M T c)) \<le> 300
      \<and> hasCollided M T (beforeCollision P M T c))"

definition calcularFitness :: "Car \<Rightarrow> real" where
  "calcularFitness c =
     (let fitness0 = score c;
          fitness1 = (if \<not> alive c \<and> \<not> finished c then fitness0 * 0.7 else fitness0);
          avgSpeed = accumulatedSpeed c / max 1 (real (framesAlive c));
          fitness2 = fitness1 + (real (framesAlive c) * 0.1 + avgSpeed * 50);
          fitness3 = fitness2 + max 0 ((1000 - bestDist c) * 0.2)
      in max 0 fitness3)"

subsection \<open>Cerebro: persistence\<close>

record pesos =
  shapes :: "nat list list"
  values' :: "real list list"

datatype tf_error = TensorSizeMismatch | WeightCountMismatch | WeightShapeMismatch

definition exportarPesos :: "Cerebro \<Rightarrow> pesos" where
  "exportarPesos b =
     \<lparr>shapes = map shape (weights b), values' = map dataSync (weights b)\<rparr>"

text \<open>
  \<open>tf.tensor(vals, shape)\<close> of TensorFlow.js on a flat array: with no shape
  (\<open>undefined\<close>) the tensor is one-dimensional; with a shape whose size is not the number
  of values it throws.
\<close>

definition tf_tensor :: "real list \<Rightarrow> nat list option \<Rightarrow> tf_error + tensor" where
  "tf_tensor vals shp =
     (case shp of
        None \<Rightarrow> Inr \<lparr>shape = [length vals], dataSync = vals\<rparr>
      | Some sh \<Rightarrow>
          if prod_list sh = length vals then Inr \<lparr>shape = sh, dataSync = vals\<rparr>
          else Inl TensorSizeMismatch)"

text \<open>
  \<open>model.setWeights(tensors)\<close> of TensorFlow.js: it throws unless it is given as many
  tensors as the model has weights, each of the shape of the weight it replaces.
\<close>

definition setWeights :: "Cerebro \<Rightarrow> tensor list \<Rightarrow> tf_error + Cerebro" where
  "setWeights b ts =
     (if length (weights b) \<noteq> length ts then Inl WeightCountMismatch
      else if map shape (weights b) \<noteq> map shape ts then Inl WeightShapeMismatch
      else Inr (b\<lparr>weights := ts\<rparr>))"

text \<open>\<open>data.values.map((vals, i) => tf.tensor(vals, data.shapes[i]))\<close>, from index \<open>i\<close> on.\<close>

fun tensorsFrom :: "nat list list \<Rightarrow> nat \<Rightarrow> real list list \<Rightarrow> tf_error + tensor list" where
  "tensorsFrom shps i [] = Inr []"
| "tensorsFrom shps i (vals # rest) =
     (case tf_tensor vals (if i < length shps then Some (shps ! i) else None) of
        Inl e \<Rightarrow> Inl e
      | Inr t \<Rightarrow> (case tensorsFrom shps (i + 1) rest of
                    Inl e \<Rightarrow> Inl e
                  | Inr ts \<Rightarrow> Inr (t # ts)))"

definition importarPesos :: "Cerebro \<Rightarrow> pesos \<Rightarrow> tf_error + Cerebro" where
  "importarPesos b data =
     (case tensorsFrom (shapes data) 0 (values' data) of
        Inl e \<Rightarrow> Inl e
      | Inr tensors \<Rightarrow> setWeights b tensors)"

text \<open>The weight shapes of the model that \<open>new Cerebro()\<close> builds: Dense(9, 5), Dense(5, 2).\<close>

definition topology :: "nat list list" where
  "topology = [[9, 5], [5], [5, 2], [2]]"

definition ofTopology :: "Cerebro \<Rightarrow> bool" where
  "ofTopology b =
     (map shape (weights b) = topology
      \<and> list_all (\<lambda>w. length (dataSync w) = prod_list (shape w)) (weights b))"

subsection \<open>sketch.js: the generation loop\<close>

definition POPULATION_SIZE :: nat where
  "POPULATION_SIZE = 30"

definition MAX_FRAMES :: nat where
  "MAX_FRAMES = 3000"

definition ELITE_COUNT :: nat where
  "ELITE_COUNT = 3"

record sim =
  population :: "Car list"
  eliteBrains :: "Cerebro list"
  generation :: nat
  frameCount :: nat
  transitioning :: bool
  bestScoreEver :: real
  totalFinished :: nat

text \<open>
  What \<open>newGeneration\<close> takes from outside the program, for the car of each index:
  the outcome of the random in-place mutation \<open>mutar(MUTATION_RATE)\<close> of a brain, the
  randomly initialised \<open>new Cerebro()\<close>, and the brain that \<open>carregarDeLocalStorage\<close>
  returns (\<open>None\<close> for \<open>null\<close>, when nothing is stored).
\<close>

record source =
  mutar :: "nat \<Rightarrow> Cerebro \<Rightarrow> Cerebro"
  fresh :: "nat \<Rightarrow> Cerebro"
  saved :: "nat \<Rightarrow> Cerebro option"

definition brainFor :: "source \<Rightarrow> Cerebro list \<Rightarrow> nat \<Rightarrow> Cerebro" where
  "brainFor src elites i =
     (if length elites > 0 then mutar src i (copiaCerebro (elites ! (i mod length elites)))
      else (case saved src i of
              None \<Rightarrow> fresh src i
            | Some b \<Rightarrow> if i > 0 then mutar src i b else b))"

definition newGeneration :: "source \<Rightarrow> grid \<Rightarrow> real \<Rightarrow> vec \<Rightarrow> sim \<Rightarrow> sim" where
  "newGeneration src mapa tileSize spawnPoint s =
     s\<lparr>frameCount := 0, transitioning := False,
       population := map (\<lambda>i. newCar mapa tileSize (fst spawnPoint) (snd spawnPoint)
                                  (brainFor src (eliteBrains s) i))
                         [0..<POPULATION_SIZE]\<rparr>"

text \<open>
  \<open>population.sort((a, b) => b.calcularFitness() - a.calcularFitness())\<close>: the sort of
  JavaScript arrays is stable, and so is \<^const>\<open>sort_key\<close>.
\<close>

definition ranked :: "Car list \<Rightarrow> Car list" where
  "ranked cars = sort_key (\<lambda>c. - calcularFitness c) cars"

definition nextGeneration :: "source \<Rightarrow> grid \<Rightarrow> real \<Rightarrow> vec \<Rightarrow> sim \<Rightarrow> sim" where
  "nextGeneration src mapa tileSize spawnPoint s =
     (let s1 = s\<lparr>transitioning := True\<rparr>;
          s2 = s1\<lparr>population := ranked (population s1)\<rparr>;
          s3 = s2\<lparr>eliteBrains := map (\<lambda>c. copiaCerebro (brain c))
                                     (take ELITE_COUNT (population s2))\<rparr>;
          s4 = s3\<lparr>totalFinished := totalFinished s3 + length (filter finished (population s3))\<rparr>;
          s5 = s4\<lparr>generation := generation s4 + 1\<rparr>
      in newGeneration src mapa tileSize spawnPoint s5)"

text \<open>
  The first loop of \<open>draw\<close>. The running \<open>leaderScore\<close> starts at \<open>-Infinity\<close>, which is
  \<open>None\<close> here; \<open>leader\<close> is the car drawn on top.
\<close>

record tally =
  aliveCount :: nat
  leaderScore :: "real option"
  leader :: "Car option"

definition exceeds :: "real \<Rightarrow> real option \<Rightarrow> bool" where
  "exceeds v bound = (case bound of None \<Rightarrow> True | Some b \<Rightarrow> v > b)"

definition account :: "tally \<Rightarrow> Car \<Rightarrow> tally" where
  "account t car =
     (if alive car then
        (let t1 = t\<lparr>aliveCount := aliveCount t + 1\<rparr>
         in if exceeds (score car) (leaderScore t1)
            then t1\<lparr>leaderScore := Some (score car), leader := Some car\<rparr>
            else t1)
      else t)"

fun updateAll :: "inference \<Rightarrow> grid \<Rightarrow> real \<Rightarrow> Car list \<Rightarrow> tally \<Rightarrow> Car list \<times> tally" where
  "updateAll pensar mapa tileSize [] t = ([], t)"
| "updateAll pensar mapa tileSize (car # rest) t =
     (let car1 = update pensar mapa tileSize car;
          r = updateAll pensar mapa tileSize rest (account t car1)
      in (car1 # fst r, snd r))"

text \<open>The tally as the loop starts.\<close>

definition tally0 :: tally where
  "tally0 = \<lparr>aliveCount = 0, leaderScore = None, leader = None\<rparr>"

text \<open>The test that ends a generation, at the end of \<open>draw\<close>.\<close>

definition generationOver :: "nat \<Rightarrow> sim \<Rightarrow> bool" where
  "generationOver n s = ((n = 0 \<or> frameCount s > MAX_FRAMES) \<and> \<not> transitioning s)"

definition draw :: "inference \<Rightarrow> source \<Rightarrow> grid \<Rightarrow> real \<Rightarrow> vec \<Rightarrow> sim \<Rightarrow> sim" where
  "draw pensar src mapa tileSize spawnPoint s =
     (let r = updateAll pensar mapa tileSize (population s) tally0;
          s1 = s\<lparr>population := fst r\<rparr>;
          s2 = s1\<lparr>frameCount := frameCount s1 + 1\<rparr>;
          s3 = (case leaderScore (snd r) of
                  None \<Rightarrow> s2
                | Some v \<Rightarrow> if v > bestScoreEver s2 then s2\<lparr>bestScoreEver := v\<rparr> else s2)
      in if generationOver (aliveCount (snd r)) s3
         then nextGeneration src mapa tileSize spawnPoint s3
         else s3)"

text \<open>
  The number of cars that are alive after the updates of a tick; the car as the finish
  detection of a tick finds it; and the cars that are alive and have not finished after
  the updates of a tick.
\<close>

definition survivors :: "inference \<Rightarrow> grid \<Rightarrow> real \<Rightarrow> sim \<Rightarrow> nat" where
  "survivors P M T s = length (filter alive (map (update P M T) (population s)))"

definition beforeFinish :: "inference \<Rightarrow> grid \<Rightarrow> real \<Rightarrow> Car \<Rightarrow> Car" where
  "beforeFinish P M T c = progressBonus M T (speedBonus (idleCount (senseAndMove P M T c)))"

definition contenders :: "inference \<Rightarrow> grid \<Rightarrow> real \<Rightarrow> sim \<Rightarrow> Car list" where
  "contenders P M T s =
     filter (\<lambda>c. alive c \<and> \<not> finished c) (map (update P M T) (population s))"

subsection \<open>Reachability on the grid\<close>

text \<open>
  One move goes from a cell to one of its four neighbours, if that neighbour is walkable;
  a cell reaches the cells that moves lead to. The cell of a car is the one the distance
  query computes. A car's caches are sound for a map when the list of finish tiles, once
  filled, is the scan of the map, and every cached distance is the one the search gives.
\<close>

definition moves :: "grid \<Rightarrow> (cell \<times> cell) set" where
  "moves mapa =
     {(p, q). q \<in> set (map (\<lambda>d. (fst p + fst d, snd p + snd d)) dirs) \<and> tileWalkable mapa q}"

definition reaches :: "grid \<Rightarrow> cell \<Rightarrow> cell \<Rightarrow> bool" where
  "reaches mapa a b = ((a, b) \<in> (moves mapa)\<^sup>*)"

definition carCell :: "real \<Rightarrow> Car \<Rightarrow> cell" where
  "carCell tileSize c = (\<lfloor>x c / tileSize\<rfloor>, \<lfloor>y c / tileSize\<rfloor>)"

definition cacheSound :: "grid \<Rightarrow> real \<Rightarrow> Car \<Rightarrow> bool" where
  "cacheSound mapa tileSize c =
     ((finishCache c = None \<or> finishCache c = Some (scanFinish mapa))
      \<and> list_all (\<lambda>kv. snd kv = bfs mapa tileSize (fst kv) (scanFinish mapa)) (distanceCache c))"

section \<open>Example inputs\<close>

text \<open>A policy that always answers with no rotation and no throttle, and a brain of zeros.\<close>

definition stillPolicy :: inference where
  "stillPolicy b i = (0, 0)"

definition zeroBrain :: Cerebro where
  "zeroBrain = \<lparr>weights = [\<lparr>shape = [9, 5], dataSync = replicate 45 0\<rparr>,
                          \<lparr>shape = [5], dataSync = replicate 5 0\<rparr>,
                          \<lparr>shape = [5, 2], dataSync = replicate 10 0\<rparr>,
                          \<lparr>shape = [2], dataSync = replicate 2 0\<rparr>]\<rparr>"

text \<open>
  A car in the middle of a map of one road tile 1000 pixels wide: no ray reaches the
  border. And a car in the middle of a map of one wall tile.
\<close>

definition roadCar :: Car where
  "roadCar = newCar [[0]] 1000 500 500 zeroBrain"

definition wallCar :: Car where
  "wallCar = newCar [[1]] 1000 500 500 zeroBrain"

text \<open>
  A track of a road tile and a finish tile, with a car on each; a source of brains without
  randomness; a generation one tick before the frame budget; and a generation in which
  one car is about to finish.
\<close>

definition goalTrack :: grid where
  "goalTrack = [[0, 2]]"

definition nearCar :: Car where
  "nearCar = newCar goalTrack 1000 500 500 zeroBrain"

definition goalCar :: Car where
  "goalCar = newCar goalTrack 1000 1500 500 zeroBrain"

definition plainSource :: source where
  "plainSource = \<lparr>mutar = (\<lambda>i b. b), fresh = (\<lambda>i. zeroBrain), saved = (\<lambda>i. None)\<rparr>"

definition lastFrame :: sim where
  "lastFrame = \<lparr>population = [roadCar], eliteBrains = [], generation = 1, frameCount = 2999,
                 transitioning = False, bestScoreEver = 0, totalFinished = 0\<rparr>"

definition arrival :: sim where
  "arrival = \<lparr>population = [goalCar, nearCar], eliteBrains = [], generation = 1, frameCount = 0,
               transitioning = False, bestScoreEver = 0, totalFinished = 0\<rparr>"

text \<open>Four cars of different brains with the scores 10, 30, 20 and 5.\<close>

definition flatBrain :: "real \<Rightarrow> Cerebro" where
  "flatBrain k = \<lparr>weights = [\<lparr>shape = [9, 5], dataSync = replicate 45 k\<rparr>,
                            \<lparr>shape = [5], dataSync = replicate 5 k\<rparr>,
                            \<lparr>shape = [5, 2], dataSync = replicate 10 k\<rparr>,
                            \<lparr>shape = [2], dataSync = replicate 2 k\<rparr>]\<rparr>"

definition scored :: "real \<Rightarrow> Car" where
  "scored k = (newCar [[0]] 1000 500 500 (flatBrain k))\<lparr>score := k\<rparr>"

definition standings :: sim where
  "standings = \<lparr>population = [scored 10, scored 30, scored 20, scored 5], eliteBrains = [],
                 generation = 1, frameCount = 100, transitioning = False, bestScoreEver = 0,
                 totalFinished = 0\<rparr>"

text \<open>A track whose finish tile lies behind a wall, and a car on its road tile.\<close>

definition blockedTrack :: grid where
  "blockedTrack = [[0, 1, 2]]"

definition blockedCar :: Car where
  "blockedCar = newCar blockedTrack 1000 500 500 zeroBrain"

text \<open>
  A car that rolls on at speed 0.1 with no throttle, so that friction slows it further on
  every tick; the cars that are as far into such a roll as the number says; and the still
  car on the road 200 ticks into its stand.
\<close>

definition driftCar :: Car where
  "driftCar = roadCar\<lparr>vel := (0.1, 0)\<rparr>"

definition tiredCar :: Car where
  "tiredCar = roadCar\<lparr>framesAlive := 200, idleFrames := 200\<rparr>"

definition drifting :: "nat \<Rightarrow> Car \<Rightarrow> bool" where
  "drifting n c =
     (alive c \<and> \<not> finished c \<and> collisions c = 0 \<and> angle c = 0 \<and> y c = 500
      \<and> 500 \<le> x c \<and> x c \<le> 500 + real n / 10 \<and> vel c = (0.95 ^ n / 10, 0)
      \<and> idleFrames c = n \<and> finishCache c = Some [] \<and> distanceCache c = [])"

section \<open>Sensors and the inputs of the policy\<close>

lemma rayFrom_range:
  "0 \<le> d \<Longrightarrow> 0 \<le> rayFrom mapa tileSize cx cy ang d \<and> rayFrom mapa tileSize cx cy ang d \<le> 200"
proof (induction mapa tileSize cx cy ang d rule: rayFrom.induct)
  case (1 mapa tileSize cx cy ang d)
  show ?case
  proof (cases "d < 200")
    case True
    then show ?thesis
      using 1 by (subst rayFrom.simps, subst (2) rayFrom.simps) (auto simp: Let_def)
  next
    case False
    then show ?thesis by (simp add: rayFrom.simps)
  qed
qed

text \<open>Every raw distance is within 0 and 200, and every input within 0 and 1.\<close>

lemma sensorReading_range:
  "0 \<le> sensorReading mapa tileSize c offset \<and> sensorReading mapa tileSize c offset \<le> 200"
  by (simp add: sensorReading_def rayFrom_range)

lemma map_p5_unit:
  "0 \<le> v \<Longrightarrow> v \<le> 200 \<Longrightarrow> 0 \<le> map_p5 v 0 200 1 0 \<and> map_p5 v 0 200 1 0 \<le> 1"
  by (simp add: map_p5_def)

lemma senseAndMove_readings:
  "readings (senseAndMove pensar mapa tileSize c)
     = map (\<lambda>offset. rayFrom mapa tileSize (x c) (y c) (angle c + offset) 0) (sensors c)"
  by (simp add: senseAndMove_def Let_def sensorReading_def)

lemma senseAndMove_inputs:
  "inputs (senseAndMove pensar mapa tileSize c)
     = map (\<lambda>offset. map_p5 (rayFrom mapa tileSize (x c) (y c) (angle c + offset) 0) 0 200 1 0)
           (sensors c)"
  by (simp add: inputs_def senseAndMove_readings)

lemma senseAndMove_ranges:
  "list_all (\<lambda>v. 0 \<le> v \<and> v \<le> 200) (readings (senseAndMove pensar mapa tileSize c))
   \<and> list_all (\<lambda>v. 0 \<le> v \<and> v \<le> 1) (inputs (senseAndMove pensar mapa tileSize c))"
  by (simp add: senseAndMove_readings senseAndMove_inputs list_all_iff rayFrom_range map_p5_unit)

lemma scanFinish_single: "v \<noteq> 2 \<Longrightarrow> scanFinish [[v]] = []"
  by (simp add: scanFinish_def)

lemma newCar_single:
  "v \<noteq> 2 \<Longrightarrow> newCar [[v]] 1000 500 500 b =
     \<lparr>x = 500, y = 500, vel = (0, 0), angle = 0, alive = True, finished = False,
      brain = copiaCerebro b, sensors = initialSensors,
      readings = [200, 200, 200, 200, 200, 200, 200, 200, 200],
      score = 0, distanceTravelled = 0, lastPosition = (500, 500),
      accumulatedSpeed = 0, framesAlive = 0, idleFrames = 0, collisions = 0,
      finishCache = Some [], distanceCache = [], distToFinish = 9999, bestDist = 9999\<rparr>"
  by (simp add: newCar_def bfsDistanceToFinish_def finishTiles_def scanFinish_single Let_def
      initialSensors_def)

lemma rayFrom_wall: "rayFrom [[1]] 1000 500 500 ang 0 = 0"
  by (subst rayFrom.simps) (simp add: outside_def tileAt_def)

text \<open>A car at least 200 pixels inside a tile that is not a wall sees nothing.\<close>

lemma floor_cell:
  fixes p ts :: real
  assumes "0 < ts" and "real_of_int k * ts \<le> p" and "p < (real_of_int k + 1) * ts"
  shows "\<lfloor>p / ts\<rfloor> = k"
proof (rule floor_unique)
  show "real_of_int k \<le> p / ts"
    using assms(1,2) by (simp add: pos_le_divide_eq)
  show "p / ts < real_of_int k + 1"
    using assms(1,3) by (simp add: pos_divide_less_eq)
qed

lemma rayFrom_inside:
  assumes "0 < ts"
      and "real_of_int col * ts + 200 \<le> cx" and "cx + 200 \<le> (real_of_int col + 1) * ts"
      and "real_of_int row * ts + 200 \<le> cy" and "cy + 200 \<le> (real_of_int row + 1) * ts"
      and "\<not> outside M row col" and "tileAt M row col \<noteq> Some 1"
      and "0 \<le> d"
  shows "rayFrom M ts cx cy ang d = 200"
  using assms(8)
proof (induction "nat (200 - d)" arbitrary: d rule: less_induct)
  case less
  show ?case
  proof (cases "d < 200")
    case True
    have c: "\<bar>cos ang * real_of_int d\<bar> \<le> real_of_int d"
      using less.prems abs_cos_le_one [of ang] by (simp add: abs_mult mult_left_le_one_le)
    have s: "\<bar>sin ang * real_of_int d\<bar> \<le> real_of_int d"
      using less.prems abs_sin_le_one [of ang] by (simp add: abs_mult mult_left_le_one_le)
    have fx: "\<lfloor>(cx + cos ang * real_of_int d) / ts\<rfloor> = col"
      using c True assms(1-3) by (intro floor_cell) (auto simp: abs_le_iff)
    have fy: "\<lfloor>(cy + sin ang * real_of_int d) / ts\<rfloor> = row"
      using s True assms(1,4,5) by (intro floor_cell) (auto simp: abs_le_iff)
    have "rayFrom M ts cx cy ang (d + 5) = 200"
      using less.hyps [of "d + 5"] True less.prems by simp
    then show ?thesis
      using True assms(6,7) by (subst rayFrom.simps) (simp add: Let_def fx fy)
  next
    case False
    then show ?thesis by (subst rayFrom.simps) simp
  qed
qed


lemma rayFrom_road: "0 \<le> d \<Longrightarrow> rayFrom [[0]] 1000 500 500 ang d = 200"
  by (rule rayFrom_inside [where col = 0 and row = 0]) (simp_all add: outside_def tileAt_def)

text \<open>
  Claim C1. The raw distances lie in [0, 200] and the inputs in [0, 1]
  (\<open>senseAndMove_ranges\<close>), but the linear map runs the other way round: on the open road
  tile all nine rays are clear, the readings are 200 and the inputs are 0; inside the wall
  tile all nine rays stop at distance 0 and the inputs are 1. The comment on line 68 of
  \<open>car.js\<close> and the header of \<open>brain.js\<close> say that 1 is a clear ray and 0 a wall.
\<close>

theorem inputs_inverted:
  "readings (senseAndMove stillPolicy [[0]] 1000 roadCar) = [200, 200, 200, 200, 200, 200, 200, 200, 200]
   \<and> inputs (senseAndMove stillPolicy [[0]] 1000 roadCar) = [0, 0, 0, 0, 0, 0, 0, 0, 0]
   \<and> readings (senseAndMove stillPolicy [[1]] 1000 wallCar) = [0, 0, 0, 0, 0, 0, 0, 0, 0]
   \<and> inputs (senseAndMove stillPolicy [[1]] 1000 wallCar) = [1, 1, 1, 1, 1, 1, 1, 1, 1]"
  by (simp add: roadCar_def wallCar_def newCar_single senseAndMove_readings senseAndMove_inputs
      rayFrom_wall rayFrom_road initialSensors_def map_p5_def)

section \<open>Fitness\<close>

text \<open>
  Claim C2. \<open>calcularFitness\<close> is the maximum of 0 and the score, times 0.7 exactly for
  a car that is dead and has not finished, plus \<open>framesAlive * 0.1\<close> and 50 times the
  accumulated speed over \<open>max(1, framesAlive)\<close>, plus the proximity bonus
  \<open>max(0, (1000 - bestDist) * 0.2)\<close>; so it is never negative.
\<close>

theorem calcularFitness_formula:
  "calcularFitness c =
     max 0 ((if \<not> alive c \<and> \<not> finished c then score c * 0.7 else score c)
            + (real (framesAlive c) * 0.1
               + accumulatedSpeed c / max 1 (real (framesAlive c)) * 50)
            + max 0 ((1000 - bestDist c) * 0.2))
   \<and> 0 \<le> calcularFitness c"
  by (simp add: calcularFitness_def Let_def)

section \<open>The update of one car\<close>

text \<open>
  Claim C9. \<open>update\<close> on a car whose \<open>alive\<close> flag is false returns the car as it was:
  no field changes.
\<close>

theorem update_dead_unchanged:
  "\<not> alive c \<Longrightarrow> update pensar mapa tileSize c = c"
  by (simp add: update_def)

theorem update_dead_unchanged_witness:
  "\<not> alive (roadCar\<lparr>alive := False\<rparr>)
   \<and> update stillPolicy [[0]] 1000 (roadCar\<lparr>alive := False\<rparr>) = roadCar\<lparr>alive := False\<rparr>"
  using update_dead_unchanged [of "roadCar\<lparr>alive := False\<rparr>" stillPolicy "[[0]]" 1000]
  by simp

lemma bfsDistanceToFinish_keeps:
  "x (snd (bfsDistanceToFinish M T c)) = x c"
  "y (snd (bfsDistanceToFinish M T c)) = y c"
  "vel (snd (bfsDistanceToFinish M T c)) = vel c"
  "alive (snd (bfsDistanceToFinish M T c)) = alive c"
  "finished (snd (bfsDistanceToFinish M T c)) = finished c"
  "score (snd (bfsDistanceToFinish M T c)) = score c"
  "accumulatedSpeed (snd (bfsDistanceToFinish M T c)) = accumulatedSpeed c"
  "framesAlive (snd (bfsDistanceToFinish M T c)) = framesAlive c"
  "idleFrames (snd (bfsDistanceToFinish M T c)) = idleFrames c"
  "collisions (snd (bfsDistanceToFinish M T c)) = collisions c"
  "distToFinish (snd (bfsDistanceToFinish M T c)) = distToFinish c"
  "bestDist (snd (bfsDistanceToFinish M T c)) = bestDist c"
  by (simp_all add: bfsDistanceToFinish_def finishTiles_def Let_def split: option.splits)

lemma speedBonus_keeps:
  "x (speedBonus c) = x c"
  "y (speedBonus c) = y c"
  "vel (speedBonus c) = vel c"
  "alive (speedBonus c) = alive c"
  "finished (speedBonus c) = finished c"
  "framesAlive (speedBonus c) = framesAlive c"
  "idleFrames (speedBonus c) = idleFrames c"
  "collisions (speedBonus c) = collisions c"
  "distToFinish (speedBonus c) = distToFinish c"
  "bestDist (speedBonus c) = bestDist c"
  by (simp_all add: speedBonus_def Let_def)

lemma progressBonus_keeps:
  "x (progressBonus M T c) = x c"
  "y (progressBonus M T c) = y c"
  "vel (progressBonus M T c) = vel c"
  "alive (progressBonus M T c) = alive c"
  "finished (progressBonus M T c) = finished c"
  "accumulatedSpeed (progressBonus M T c) = accumulatedSpeed c"
  "framesAlive (progressBonus M T c) = framesAlive c"
  "idleFrames (progressBonus M T c) = idleFrames c"
  "collisions (progressBonus M T c) = collisions c"
  by (simp_all add: progressBonus_def Let_def bfsDistanceToFinish_keeps)

lemma finishDetection_keeps:
  "x (finishDetection M T c) = x c"
  "y (finishDetection M T c) = y c"
  "vel (finishDetection M T c) = vel c"
  "accumulatedSpeed (finishDetection M T c) = accumulatedSpeed c"
  "framesAlive (finishDetection M T c) = framesAlive c"
  "idleFrames (finishDetection M T c) = idleFrames c"
  "collisions (finishDetection M T c) = collisions c"
  "distToFinish (finishDetection M T c) = distToFinish c"
  "bestDist (finishDetection M T c) = bestDist c"
  by (simp_all add: finishDetection_def Let_def)

lemma scoring_keeps:
  "x (scoring M T c) = x c"
  "y (scoring M T c) = y c"
  "vel (scoring M T c) = vel c"
  "framesAlive (scoring M T c) = framesAlive c"
  "idleFrames (scoring M T c) = idleFrames c"
  "collisions (scoring M T c) = collisions c"
  by (simp_all add: scoring_def finishDetection_keeps progressBonus_keeps speedBonus_keeps)

lemma collisionDetection_keeps:
  "x (collisionDetection M T c) = x c"
  "y (collisionDetection M T c) = y c"
  "vel (collisionDetection M T c) = vel c"
  "finished (collisionDetection M T c) = finished c"
  "accumulatedSpeed (collisionDetection M T c) = accumulatedSpeed c"
  "framesAlive (collisionDetection M T c) = framesAlive c"
  "idleFrames (collisionDetection M T c) = idleFrames c"
  "distToFinish (collisionDetection M T c) = distToFinish c"
  "bestDist (collisionDetection M T c) = bestDist c"
  by (simp_all add: collisionDetection_def Let_def)

lemma idleCount_keeps:
  "x (idleCount c) = x c"
  "y (idleCount c) = y c"
  "vel (idleCount c) = vel c"
  "alive (idleCount c) = alive c"
  "finished (idleCount c) = finished c"
  "score (idleCount c) = score c"
  "accumulatedSpeed (idleCount c) = accumulatedSpeed c"
  "framesAlive (idleCount c) = framesAlive c"
  "collisions (idleCount c) = collisions c"
  "distToFinish (idleCount c) = distToFinish c"
  "bestDist (idleCount c) = bestDist c"
  by (simp_all add: idleCount_def)

lemma senseAndMove_keeps:
  "alive (senseAndMove P M T c) = alive c"
  "finished (senseAndMove P M T c) = finished c"
  "score (senseAndMove P M T c) = score c"
  "accumulatedSpeed (senseAndMove P M T c) = accumulatedSpeed c"
  "idleFrames (senseAndMove P M T c) = idleFrames c"
  "collisions (senseAndMove P M T c) = collisions c"
  "distToFinish (senseAndMove P M T c) = distToFinish c"
  "bestDist (senseAndMove P M T c) = bestDist c"
  "framesAlive (senseAndMove P M T c) = framesAlive c + 1"
  by (simp_all add: senseAndMove_def Let_def)

text \<open>A wall or the outside is never a finish tile: the car stays alive through the scoring.\<close>

lemma finishDetection_collided:
  "hasCollided M T c \<Longrightarrow> finishDetection M T c = c"
  by (auto simp: finishDetection_def hasCollided_def outside_def Let_def split: if_splits)

lemma hasCollided_position:
  "x c' = x c \<Longrightarrow> y c' = y c \<Longrightarrow> hasCollided M T c' = hasCollided M T c"
  by (simp add: hasCollided_def)

lemma update_collides:
  assumes "collides P M T c"
  shows "update P M T c = collisionDetection M T (beforeCollision P M T c)"
  using assms by (simp add: collides_def update_def beforeCollision_def Let_def)

lemma beforeCollision_alive:
  assumes "collides P M T c"
  shows "alive (beforeCollision P M T c)"
proof -
  let ?p = "progressBonus M T (speedBonus (idleCount (senseAndMove P M T c)))"
  have "hasCollided M T (finishDetection M T ?p)"
    using assms by (simp add: collides_def beforeCollision_def scoring_def)
  then have "hasCollided M T ?p"
    by (simp add: hasCollided_position [of "finishDetection M T ?p" ?p] finishDetection_keeps)
  then have "finishDetection M T ?p = ?p"
    by (rule finishDetection_collided)
  then have "beforeCollision P M T c = ?p"
    by (simp add: beforeCollision_def scoring_def)
  moreover have "alive ?p"
    using assms by (simp add: collides_def progressBonus_keeps speedBonus_keeps idleCount_keeps senseAndMove_keeps)
  ultimately show ?thesis by simp
qed

lemma collides_tick:
  assumes "collides P M T c"
  shows "collisions (update P M T c) = collisions c + 1"
    and "score (update P M T c) = score (beforeCollision P M T c) - 40 * real (collisions c + 1)"
    and "alive (update P M T c) = (collisions c + 1 \<le> 2)"
proof -
  have u: "update P M T c = collisionDetection M T (beforeCollision P M T c)"
    using assms by (rule update_collides)
  have h: "hasCollided M T (beforeCollision P M T c)"
    using assms by (simp add: collides_def)
  have a: "alive (beforeCollision P M T c)"
    using assms by (rule beforeCollision_alive)
  have k: "collisions (beforeCollision P M T c) = collisions c"
    by (simp add: beforeCollision_def scoring_keeps idleCount_keeps senseAndMove_keeps)
  show "collisions (update P M T c) = collisions c + 1"
    using h k by (simp add: u collisionDetection_def Let_def)
  show "score (update P M T c) = score (beforeCollision P M T c) - 40 * real (collisions c + 1)"
    using h k by (simp add: u collisionDetection_def Let_def)
  show "alive (update P M T c) = (collisions c + 1 \<le> 2)"
    using h k a by (auto simp add: u collisionDetection_def Let_def)
qed


text \<open>
  Claim C4. On a tick that reaches the collision step with the car on a wall tile or
  outside the grid, the collision counter goes up by one, 40 times the new counter is
  taken from the score that the tick had reached, and the car stays alive exactly while
  the counter is at most 2. So when three ticks in a row collide, the penalties are 40, 80
  and 120, 240 in all, the counter ends at 3 and the car is dead after the third.
\<close>

theorem collision_penalty:
  assumes "0 < T" and "collides P M T c"
  shows "collisions (update P M T c) = collisions c + 1
       \<and> score (update P M T c) = score (beforeCollision P M T c) - 40 * real (collisions (update P M T c))
       \<and> alive (update P M T c) = (collisions (update P M T c) \<le> 2)
       \<and> (collides P M T (update P M T c) \<and> collides P M T (update P M T (update P M T c)) \<longrightarrow>
            score (beforeCollision P M T c) - score (update P M T c) = 40
          \<and> score (beforeCollision P M T (update P M T c)) - score (update P M T (update P M T c)) = 80
          \<and> score (beforeCollision P M T (update P M T (update P M T c)))
              - score (update P M T (update P M T (update P M T c))) = 120
          \<and> (score (beforeCollision P M T c) - score (update P M T c))
              + (score (beforeCollision P M T (update P M T c)) - score (update P M T (update P M T c)))
              + (score (beforeCollision P M T (update P M T (update P M T c)))
                  - score (update P M T (update P M T (update P M T c)))) = 240
          \<and> collisions (update P M T (update P M T (update P M T c))) = 3
          \<and> \<not> alive (update P M T (update P M T (update P M T c))))"
proof -
  let ?U = "update P M T"
  note one = collides_tick [OF assms(2)]
  have three: "score (beforeCollision P M T c) - score (?U c) = 40
          \<and> score (beforeCollision P M T (?U c)) - score (?U (?U c)) = 80
          \<and> score (beforeCollision P M T (?U (?U c))) - score (?U (?U (?U c))) = 120
          \<and> (score (beforeCollision P M T c) - score (?U c))
              + (score (beforeCollision P M T (?U c)) - score (?U (?U c)))
              + (score (beforeCollision P M T (?U (?U c))) - score (?U (?U (?U c)))) = 240
          \<and> collisions (?U (?U (?U c))) = 3
          \<and> \<not> alive (?U (?U (?U c)))"
    if c2: "collides P M T (?U c)" and c3: "collides P M T (?U (?U c))"
  proof -
    note two = collides_tick [OF c2]
    note thr = collides_tick [OF c3]
    have "alive (?U (?U c))" using c3 by (simp add: collides_def)
    then have "collisions (?U c) + 1 \<le> 2" using two(3) by simp
    then have z: "collisions c = 0" using one(1) by simp
    show ?thesis
      using one two thr z by simp
  qed
  show ?thesis
    using one three by simp
qed



lemmas tick_defs = update_def senseAndMove_def idleCount_def scoring_def speedBonus_def
  progressBonus_def finishDetection_def collisionDetection_def bfsDistanceToFinish_def
  finishTiles_def hasCollided_def sensorReading_def Let_def stillPolicy_def
  dist_p5_def mag_def add_def mult_def fromAngle_def

lemma wallCar_tick1:
  "update stillPolicy [[1]] 1000 wallCar =
     \<lparr>x = 500, y = 500, vel = (0, 0), angle = 0, alive = True, finished = False,
      brain = copiaCerebro zeroBrain, sensors = initialSensors,
      readings = [0, 0, 0, 0, 0, 0, 0, 0, 0],
      score = - 40, distanceTravelled = 0, lastPosition = (500, 500),
      accumulatedSpeed = 0, framesAlive = 1, idleFrames = 1, collisions = 1,
      finishCache = Some [], distanceCache = [], distToFinish = 9999, bestDist = 9999\<rparr>"
  by (simp add: wallCar_def newCar_single tick_defs rayFrom_wall outside_def tileAt_def initialSensors_def)


lemma update_alive_vel:
  "alive c \<Longrightarrow> vel (update P M T c) = vel (senseAndMove P M T c)"
  by (simp add: update_def Let_def collisionDetection_keeps scoring_keeps idleCount_keeps)

lemma update_alive_idleFrames:
  "alive c \<Longrightarrow> idleFrames (update P M T c) = idleFrames (idleCount (senseAndMove P M T c))"
  by (simp add: update_def Let_def collisionDetection_keeps scoring_keeps)

lemma update_idle_counts:
  assumes "alive c" and "mag (vel (update P M T c)) < 0.1"
  shows "idleFrames (update P M T c) = idleFrames c + 1"
  using assms by (simp add: update_alive_idleFrames update_alive_vel idleCount_def senseAndMove_keeps)

text \<open>The tick on which the idle counter passes 300.\<close>

lemma update_idle_death:
  assumes "alive c" and "idleFrames c = 300" and "mag (vel (update P M T c)) < 0.1"
  shows "update P M T c
           = (idleCount (senseAndMove P M T c))\<lparr>alive := False,
                score := score (idleCount (senseAndMove P M T c)) - 100\<rparr>"
proof -
  have "idleFrames (idleCount (senseAndMove P M T c)) = 301"
    using update_idle_counts [OF assms(1,3)] assms(1,2) by (simp add: update_alive_idleFrames)
  then show ?thesis
    using assms(1) by (simp add: update_def Let_def)
qed

lemma wallCar_tick2:
  "update stillPolicy [[1]] 1000 (update stillPolicy [[1]] 1000 wallCar) =
     \<lparr>x = 500, y = 500, vel = (0, 0), angle = 0, alive = True, finished = False,
      brain = copiaCerebro zeroBrain, sensors = initialSensors,
      readings = [0, 0, 0, 0, 0, 0, 0, 0, 0],
      score = - 120, distanceTravelled = 0, lastPosition = (500, 500),
      accumulatedSpeed = 0, framesAlive = 2, idleFrames = 2, collisions = 2,
      finishCache = Some [], distanceCache = [], distToFinish = 9999, bestDist = 9999\<rparr>"
  unfolding wallCar_tick1
  by (simp add: tick_defs rayFrom_wall outside_def tileAt_def initialSensors_def)

lemma wallCar_tick3:
  "update stillPolicy [[1]] 1000 (update stillPolicy [[1]] 1000 (update stillPolicy [[1]] 1000 wallCar)) =
     \<lparr>x = 500, y = 500, vel = (0, 0), angle = 0, alive = False, finished = False,
      brain = copiaCerebro zeroBrain, sensors = initialSensors,
      readings = [0, 0, 0, 0, 0, 0, 0, 0, 0],
      score = - 240, distanceTravelled = 0, lastPosition = (500, 500),
      accumulatedSpeed = 0, framesAlive = 3, idleFrames = 3, collisions = 3,
      finishCache = Some [], distanceCache = [], distToFinish = 9999, bestDist = 9999\<rparr>"
  unfolding wallCar_tick2
  by (simp add: tick_defs rayFrom_wall outside_def tileAt_def initialSensors_def)

lemma wallCar_collides:
  "collides stillPolicy [[1]] 1000 wallCar"
  "collides stillPolicy [[1]] 1000 (update stillPolicy [[1]] 1000 wallCar)"
  "collides stillPolicy [[1]] 1000 (update stillPolicy [[1]] 1000 (update stillPolicy [[1]] 1000 wallCar))"
proof -
  have stuck: "collides stillPolicy [[1]] 1000 c"
    if "alive c" "x c = 500" "y c = 500" "vel c = (0, 0)" "idleFrames c < 300" for c
    using that
    by (simp add: collides_def beforeCollision_def scoring_keeps idleCount_keeps hasCollided_def
        senseAndMove_def idleCount_def Let_def stillPolicy_def
        mag_def add_def mult_def fromAngle_def outside_def tileAt_def)
  show "collides stillPolicy [[1]] 1000 wallCar"
    by (rule stuck) (simp_all add: wallCar_def newCar_single)
  show "collides stillPolicy [[1]] 1000 (update stillPolicy [[1]] 1000 wallCar)"
    by (rule stuck) (simp_all add: wallCar_tick1)
  show "collides stillPolicy [[1]] 1000 (update stillPolicy [[1]] 1000 (update stillPolicy [[1]] 1000 wallCar))"
    by (rule stuck) (simp_all add: wallCar_tick2)
qed

theorem collision_penalty_witness:
  "collides stillPolicy [[1]] 1000 wallCar
   \<and> collides stillPolicy [[1]] 1000 (update stillPolicy [[1]] 1000 wallCar)
   \<and> collides stillPolicy [[1]] 1000 (update stillPolicy [[1]] 1000 (update stillPolicy [[1]] 1000 wallCar))
   \<and> collisions (update stillPolicy [[1]] 1000 wallCar) = 1
   \<and> score (update stillPolicy [[1]] 1000 wallCar) = - 40
   \<and> alive (update stillPolicy [[1]] 1000 wallCar)
   \<and> \<not> alive (update stillPolicy [[1]] 1000 (update stillPolicy [[1]] 1000 (update stillPolicy [[1]] 1000 wallCar)))
   \<and> score (update stillPolicy [[1]] 1000 (update stillPolicy [[1]] 1000 (update stillPolicy [[1]] 1000 wallCar))) = - 240"
proof -
  let ?U = "update stillPolicy [[1]] 1000"
  have f1: "collisions (?U wallCar) = 1" "score (?U wallCar) = - 40"
    by (simp_all add: wallCar_tick1)
  have f3: "score (?U (?U (?U wallCar))) = - 240"
    by (simp add: wallCar_tick3)
  have "(0::real) < 1000"
    by simp
  from collision_penalty [OF this wallCar_collides(1)] wallCar_collides f1 f3
  show ?thesis by simp
qed


lemma finishDetection_unfinished:
  "\<not> finished (finishDetection M T c) \<Longrightarrow> finishDetection M T c = c"
  by (auto simp add: finishDetection_def Let_def split: if_splits)

lemma collisionDetection_survives:
  "collisions (collisionDetection M T c) \<le> 2 \<Longrightarrow> alive (collisionDetection M T c) = alive c"
  by (simp add: collisionDetection_def Let_def split: if_splits)

text \<open>A tick kills a car only by the idle counter, by the finish or by the third collision.\<close>

lemma update_survives:
  assumes "alive c" and "idleFrames (idleCount (senseAndMove P M T c)) \<le> 300"
      and "\<not> finished (update P M T c)" and "collisions (update P M T c) \<le> 2"
  shows "alive (update P M T c)"
proof -
  let ?c1 = "idleCount (senseAndMove P M T c)"
  let ?p = "progressBonus M T (speedBonus ?c1)"
  have u: "update P M T c = collisionDetection M T (finishDetection M T ?p)"
    using assms(1,2) by (simp add: update_def Let_def scoring_def)
  have "\<not> finished (finishDetection M T ?p)"
    using assms(3) by (simp add: u collisionDetection_keeps)
  then have f: "finishDetection M T ?p = ?p"
    by (rule finishDetection_unfinished)
  have "alive ?p"
    using assms(1) by (simp add: progressBonus_keeps speedBonus_keeps idleCount_keeps senseAndMove_keeps)
  then show ?thesis
    using assms(4) collisionDetection_survives [of M T ?p] by (simp add: u f)
qed

text \<open>The \<open>else\<close> of line 81: a tick that is not slow puts the idle counter back to 0.\<close>

lemma update_fast_resets:
  assumes "alive c" and "\<not> mag (vel (update P M T c)) < 0.1"
  shows "idleFrames (update P M T c) = 0"
  using assms by (simp add: update_alive_idleFrames update_alive_vel idleCount_def)

lemma newCar_idleFrames: "idleFrames (newCar M T x0 y0 b) = 0"
  by (simp add: newCar_def Let_def bfsDistanceToFinish_keeps)

lemma funpow_idle_run:
  assumes "alive c" and "idleFrames c = 0" and "n \<le> 300"
      and "\<forall>i\<in>{1..n}. mag (vel ((update P M T ^^ i) c)) < 0.1"
      and "\<forall>i\<in>{1..n}. \<not> finished ((update P M T ^^ i) c) \<and> collisions ((update P M T ^^ i) c) \<le> 2"
  shows "alive ((update P M T ^^ n) c) \<and> idleFrames ((update P M T ^^ n) c) = n"
  using assms(3-5)
proof (induction n)
  case 0
  show ?case using assms(1,2) by simp
next
  case (Suc n)
  let ?c = "(update P M T ^^ n) c"
  have ih: "alive ?c" "idleFrames ?c = n"
    using Suc.IH Suc.prems by simp_all
  have "Suc n \<in> {1..Suc n}"
    by simp
  then have slow: "mag (vel (update P M T ?c)) < 0.1"
    and other: "\<not> finished (update P M T ?c)" "collisions (update P M T ?c) \<le> 2"
    using Suc.prems(2,3) by (force, force, force)
  have count: "idleFrames (update P M T ?c) = Suc n"
    using update_idle_counts [OF ih(1) slow] ih(2) by simp
  then have "idleFrames (idleCount (senseAndMove P M T ?c)) \<le> 300"
    using Suc.prems(1) ih(1) by (simp add: update_alive_idleFrames)
  then have "alive (update P M T ?c)"
    using update_survives [OF ih(1) _ other] by simp
  then show ?case
    using count by simp
qed


text \<open>
  Claim C3, with the two conditions under which it holds. Take a car that is alive with
  its idle counter at 0, as the constructor leaves it and as every tick that is not slow
  leaves it. If its speed after
  friction is below 0.1 on each of 301 ticks in a row, and none of the first 300 of them
  finishes it or brings its collision counter above 2, then it is alive after each of the
  first 300 ticks with the idle counter at the number of ticks, and on the 301st tick the
  counter is 301, the car dies, its score drops by exactly 100, and nothing else of the
  scoring happens (accumulated speed, distance to the finish, best distance, finished flag
  and collision counter are as before the tick).
\<close>

theorem idle_death_at_301:
  assumes "0 < T"
      and "alive c" and "idleFrames c = 0"
      and "\<forall>i\<in>{1..301}. mag (vel ((update P M T ^^ i) c)) < 0.1"
      and "\<forall>i\<in>{1..300}. \<not> finished ((update P M T ^^ i) c) \<and> collisions ((update P M T ^^ i) c) \<le> 2"
  shows "(\<forall>i\<in>{0..300}. alive ((update P M T ^^ i) c) \<and> idleFrames ((update P M T ^^ i) c) = i)
       \<and> idleFrames ((update P M T ^^ 301) c) = 301
       \<and> \<not> alive ((update P M T ^^ 301) c)
       \<and> score ((update P M T ^^ 301) c) = score ((update P M T ^^ 300) c) - 100
       \<and> accumulatedSpeed ((update P M T ^^ 301) c) = accumulatedSpeed ((update P M T ^^ 300) c)
       \<and> distToFinish ((update P M T ^^ 301) c) = distToFinish ((update P M T ^^ 300) c)
       \<and> bestDist ((update P M T ^^ 301) c) = bestDist ((update P M T ^^ 300) c)
       \<and> finished ((update P M T ^^ 301) c) = finished ((update P M T ^^ 300) c)
       \<and> collisions ((update P M T ^^ 301) c) = collisions ((update P M T ^^ 300) c)
       \<and> (alive c' \<and> \<not> mag (vel (update P M T c')) < 0.1 \<longrightarrow> idleFrames (update P M T c') = 0)
       \<and> idleFrames (newCar M T x0 y0 b) = 0"
proof -
  let ?U = "update P M T"
  let ?c = "(?U ^^ 300) c"
  have run: "alive ((?U ^^ i) c) \<and> idleFrames ((?U ^^ i) c) = i" if "i \<in> {0..300}" for i
  proof (rule funpow_idle_run [OF assms(2,3)])
    show "i \<le> 300" using that by simp
    show "\<forall>j\<in>{1..i}. mag (vel ((?U ^^ j) c)) < 0.1"
      using assms(4) that by auto
    show "\<forall>j\<in>{1..i}. \<not> finished ((?U ^^ j) c) \<and> collisions ((?U ^^ j) c) \<le> 2"
      using assms(5) that by auto
  qed
  have a: "alive ?c" and i300: "idleFrames ?c = 300"
    using run [of 300] by simp_all
  have s: "(?U ^^ 301) c = ?U ?c"
    using funpow.simps(2) [of 300 ?U] by simp
  have "(301::nat) \<in> {1..301}"
    by simp
  then have v: "mag (vel (?U ?c)) < 0.1"
    using assms(4) s by metis
  have d: "?U ?c = (idleCount (senseAndMove P M T ?c))\<lparr>alive := False,
                score := score (idleCount (senseAndMove P M T ?c)) - 100\<rparr>"
    using update_idle_death [OF a i300 v] .
  have i301: "idleFrames (?U ?c) = 301"
    using update_idle_counts [OF a v] i300 by simp
  have last: "idleFrames ((?U ^^ 301) c) = 301
       \<and> \<not> alive ((?U ^^ 301) c)
       \<and> score ((?U ^^ 301) c) = score ?c - 100
       \<and> accumulatedSpeed ((?U ^^ 301) c) = accumulatedSpeed ?c
       \<and> distToFinish ((?U ^^ 301) c) = distToFinish ?c
       \<and> bestDist ((?U ^^ 301) c) = bestDist ?c
       \<and> finished ((?U ^^ 301) c) = finished ?c
       \<and> collisions ((?U ^^ 301) c) = collisions ?c"
    unfolding s using i301 by (simp add: d idleCount_keeps senseAndMove_keeps)
  show ?thesis
    using run last update_fast_resets [of c' P M T] newCar_idleFrames [of M T x0 y0 b]
    by blast
qed

lemma roadCar_tick:
  "n < 300 \<Longrightarrow>
   update stillPolicy [[0]] 1000 (roadCar\<lparr>framesAlive := n, idleFrames := n\<rparr>)
     = roadCar\<lparr>framesAlive := Suc n, idleFrames := Suc n\<rparr>"
  by (simp add: roadCar_def newCar_single tick_defs rayFrom_road outside_def tileAt_def initialSensors_def)

lemma roadCar_last_tick:
  "update stillPolicy [[0]] 1000 (roadCar\<lparr>framesAlive := 300, idleFrames := 300\<rparr>)
     = roadCar\<lparr>framesAlive := 301, idleFrames := 301, alive := False, score := - 100\<rparr>"
  by (simp add: roadCar_def newCar_single tick_defs rayFrom_road outside_def tileAt_def initialSensors_def)

lemma roadCar_run:
  "n \<le> 300 \<Longrightarrow>
   (update stillPolicy [[0]] 1000 ^^ n) roadCar = roadCar\<lparr>framesAlive := n, idleFrames := n\<rparr>"
proof (induction n)
  case 0
  show ?case by (simp add: roadCar_def newCar_single)
next
  case (Suc n)
  then show ?case by (simp add: roadCar_tick)
qed

lemma roadCar_run_301:
  "(update stillPolicy [[0]] 1000 ^^ 301) roadCar
     = roadCar\<lparr>framesAlive := 301, idleFrames := 301, alive := False, score := - 100\<rparr>"
proof -
  have "(update stillPolicy [[0]] 1000 ^^ 301) roadCar
          = update stillPolicy [[0]] 1000 ((update stillPolicy [[0]] 1000 ^^ 300) roadCar)"
    using funpow.simps(2) [of 300 "update stillPolicy [[0]] 1000"] by simp
  then show ?thesis
    by (simp add: roadCar_run roadCar_last_tick)
qed


lemma roadCar_fields:
  "alive roadCar" "vel roadCar = (0, 0)" "score roadCar = 0"
  by (simp_all add: roadCar_def newCar_single)

lemma mag_forward: "0 \<le> v \<Longrightarrow> mag (v, 0) = v"
  by (simp add: mag_def)

lemma drift_speed:
  "0 < (0.95::real) ^ n / 10" "(0.95::real) ^ Suc n / 10 < 0.1" "(0.95::real) ^ n / 10 \<le> 0.1"
proof -
  show "0 < (0.95::real) ^ n / 10"
    by simp
  have "(0.95::real) ^ Suc n < 1"
    by (rule power_Suc_less_one) simp_all
  then show "(0.95::real) ^ Suc n / 10 < 0.1"
    by simp
  have "(0.95::real) ^ n \<le> 1"
    by (rule power_le_one) simp_all
  then show "(0.95::real) ^ n / 10 \<le> 0.1"
    by simp
qed

lemma drifting_start: "drifting 0 driftCar"
  by (simp add: drifting_def driftCar_def roadCar_def newCar_single)

lemma bfsDistanceToFinish_noFinish:
  "finishCache c = Some [] \<Longrightarrow> distanceCache c = [] \<Longrightarrow> bfsDistanceToFinish M T c = (9999, c)"
  by (simp add: bfsDistanceToFinish_def finishTiles_def Let_def)

lemma drifting_tick:
  assumes "n < 300" and "drifting n c"
  shows "drifting (Suc n) (update stillPolicy [[0]] 1000 c)"
    and "accumulatedSpeed (update stillPolicy [[0]] 1000 c) = accumulatedSpeed c + 0.95 ^ Suc n / 10"
proof -
  define s :: real where "s = 0.95 ^ Suc n / 10"
  let ?c1 = "senseAndMove stillPolicy [[0]] 1000 c"
  have slow: "s < 0.1" and pos: "0 < s" and small: "s \<le> 0.1"
    unfolding s_def using drift_speed [of "Suc n"] drift_speed(2) [of n] by simp_all
  have c1: "vel ?c1 = (s, 0)" "x ?c1 = x c + s" "y ?c1 = 500" "angle ?c1 = 0"
    "finishCache ?c1 = Some []" "distanceCache ?c1 = []"
    using assms(2) unfolding s_def
    by (simp_all add: drifting_def senseAndMove_def Let_def stillPolicy_def add_def mult_def
        fromAngle_def)
  have m: "mag (vel ?c1) = s"
    unfolding c1 using pos by (intro mag_forward) simp
  have x0: "500 \<le> x c" "x c \<le> 500 + real n / 10"
    using assms(2) by (simp_all add: drifting_def)
  have step: "real (Suc n) / 10 = real n / 10 + 0.1"
    by simp
  have xb: "500 \<le> x ?c1" "x ?c1 \<le> 500 + real (Suc n) / 10"
    unfolding c1 step using x0 pos small by linarith+
  have "real (Suc n) / 10 \<le> 30"
    using assms(1) by simp
  then have "0 \<le> x ?c1" "x ?c1 < 1000"
    using xb by linarith+
  then have "0 \<le> x ?c1 / 1000" "x ?c1 / 1000 < 1"
    by simp_all
  then have fx: "\<lfloor>x ?c1 / 1000\<rfloor> = 0"
    by (intro floor_unique) simp_all
  have fy: "\<lfloor>y ?c1 / 1000\<rfloor> = 0"
    by (simp add: c1)
  let ?c2 = "idleCount ?c1"
  have c2: "?c2 = ?c1\<lparr>idleFrames := Suc n\<rparr>"
    using m slow assms(2) by (simp add: idleCount_def senseAndMove_keeps drifting_def)
  have u: "update stillPolicy [[0]] 1000 c
             = collisionDetection [[0]] 1000 (scoring [[0]] 1000 ?c2)"
    using assms by (simp add: update_def Let_def c2 drifting_def)
  let ?p = "progressBonus [[0]] 1000 (speedBonus ?c2)"
  have sb: "speedBonus ?c2 = ?c2\<lparr>accumulatedSpeed := accumulatedSpeed c + s\<rparr>"
    using m slow by (simp add: speedBonus_def Let_def c2 senseAndMove_keeps)
  have pxy: "x ?p = x ?c1" "y ?p = y ?c1" "finished ?p = finished c"
    by (simp_all add: progressBonus_keeps speedBonus_keeps idleCount_keeps senseAndMove_keeps)
  have fd: "finishDetection [[0]] 1000 ?p = ?p"
    unfolding finishDetection_def Let_def pxy fx fy by (simp add: tileAt_def)
  have cd: "collisionDetection [[0]] 1000 ?p = ?p"
    unfolding collisionDetection_def hasCollided_def Let_def pxy fx fy
    by (simp add: tileAt_def outside_def)
  have u2: "update stillPolicy [[0]] 1000 c = ?p"
    by (simp add: u scoring_def fd cd)
  have q: "finishCache (speedBonus ?c2) = Some []" "distanceCache (speedBonus ?c2) = []"
    "angle (speedBonus ?c2) = 0"
    by (simp_all add: speedBonus_def idleCount_def Let_def c1)
  have caches: "finishCache ?p = Some []" "distanceCache ?p = []"
    by (simp_all add: progressBonus_def bfsDistanceToFinish_noFinish q Let_def)
  show "accumulatedSpeed (update stillPolicy [[0]] 1000 c) = accumulatedSpeed c + 0.95 ^ Suc n / 10"
    unfolding u2 by (simp add: progressBonus_keeps sb s_def)
  have fields: "alive ?p" "\<not> finished ?p" "collisions ?p = 0" "idleFrames ?p = Suc n"
    "vel ?p = (s, 0)" "x ?p = x ?c1" "y ?p = 500"
    using assms(2)
    by (simp_all add: progressBonus_keeps speedBonus_keeps idleCount_keeps senseAndMove_keeps c2 c1
        drifting_def)
  have ang: "angle ?p = 0"
    by (simp add: progressBonus_def bfsDistanceToFinish_noFinish q Let_def)
  show "drifting (Suc n) (update stillPolicy [[0]] 1000 c)"
    unfolding u2 drifting_def using fields ang caches xb by (simp add: s_def)
qed

lemma drifting_move:
  assumes "drifting n c"
  shows "vel (update stillPolicy [[0]] 1000 c) = (0.95 ^ Suc n / 10, 0)"
proof -
  have "alive c" using assms by (simp add: drifting_def)
  then show ?thesis
    using assms
    by (simp add: update_alive_vel drifting_def senseAndMove_def Let_def stillPolicy_def add_def
        mult_def fromAngle_def)
qed

lemma driftCar_run:
  "n \<le> 300 \<Longrightarrow> drifting n ((update stillPolicy [[0]] 1000 ^^ n) driftCar)"
proof (induction n)
  case 0
  show ?case by (simp add: drifting_start)
next
  case (Suc n)
  then show ?case by (simp add: drifting_tick(1))
qed

lemma driftCar_slow:
  assumes "i \<in> {1..301}"
  shows "mag (vel ((update stillPolicy [[0]] 1000 ^^ i) driftCar)) = 0.95 ^ i / 10"
    and "mag (vel ((update stillPolicy [[0]] 1000 ^^ i) driftCar)) < 0.1"
proof -
  obtain n where i: "i = Suc n" and n: "n \<le> 300"
    using assms by (cases i) auto
  have "vel ((update stillPolicy [[0]] 1000 ^^ i) driftCar) = (0.95 ^ i / 10, 0)"
    unfolding i using drifting_move [OF driftCar_run [OF n]] by simp
  then show m: "mag (vel ((update stillPolicy [[0]] 1000 ^^ i) driftCar)) = 0.95 ^ i / 10"
    using drift_speed(1) [of i] mag_forward [of "0.95 ^ i / 10"] by simp
  have "(0.95::real) ^ i / 10 < 0.1"
    unfolding i by (rule drift_speed(2))
  then show "mag (vel ((update stillPolicy [[0]] 1000 ^^ i) driftCar)) < 0.1"
    by (simp only: m)
qed

theorem idle_death_at_301_witness:
  "alive driftCar \<and> idleFrames driftCar = 0
   \<and> 0 < mag (vel ((update stillPolicy [[0]] 1000 ^^ 301) driftCar))
   \<and> alive ((update stillPolicy [[0]] 1000 ^^ 300) driftCar)
   \<and> \<not> alive ((update stillPolicy [[0]] 1000 ^^ 301) driftCar)
   \<and> idleFrames ((update stillPolicy [[0]] 1000 ^^ 301) driftCar) = 301
   \<and> score ((update stillPolicy [[0]] 1000 ^^ 301) driftCar)
       = score ((update stillPolicy [[0]] 1000 ^^ 300) driftCar) - 100
   \<and> accumulatedSpeed ((update stillPolicy [[0]] 1000 ^^ 299) driftCar)
       < accumulatedSpeed ((update stillPolicy [[0]] 1000 ^^ 300) driftCar)
   \<and> accumulatedSpeed ((update stillPolicy [[0]] 1000 ^^ 301) driftCar)
       = accumulatedSpeed ((update stillPolicy [[0]] 1000 ^^ 300) driftCar)"
proof -
  let ?U = "update stillPolicy [[0]] 1000"
  have a: "alive driftCar" and z: "idleFrames driftCar = 0"
    using drifting_start by (simp_all add: drifting_def)
  have slow: "\<forall>i\<in>{1..301}. mag (vel ((?U ^^ i) driftCar)) < 0.1"
    using driftCar_slow(2) by blast
  have other: "\<forall>i\<in>{1..300}. \<not> finished ((?U ^^ i) driftCar) \<and> collisions ((?U ^^ i) driftCar) \<le> 2"
  proof
    fix i :: nat assume "i \<in> {1..300}"
    then have "drifting i ((?U ^^ i) driftCar)"
      using driftCar_run [of i] by simp
    then show "\<not> finished ((?U ^^ i) driftCar) \<and> collisions ((?U ^^ i) driftCar) \<le> 2"
      by (simp add: drifting_def)
  qed
  have m301: "mag (vel ((?U ^^ 301) driftCar)) = 0.95 ^ 301 / 10"
    by (rule driftCar_slow(1)) simp
  have moving: "0 < mag (vel ((?U ^^ 301) driftCar))"
    unfolding m301 by (rule drift_speed(1))
  have "(?U ^^ 300) driftCar = ?U ((?U ^^ 299) driftCar)"
    using funpow.simps(2) [of 299 ?U] by simp
  moreover have "drifting 299 ((?U ^^ 299) driftCar)"
    using driftCar_run [of 299] by simp
  ultimately have grow: "accumulatedSpeed ((?U ^^ 299) driftCar) < accumulatedSpeed ((?U ^^ 300) driftCar)"
    using drifting_tick(2) [of 299 "(?U ^^ 299) driftCar"] drift_speed(1) [of "Suc 299"]
    by simp
  have in300: "(300::nat) \<in> {0..300}"
    by simp
  have "(0::real) < 1000"
    by simp
  from idle_death_at_301 [OF this a z slow other] in300 a z moving grow show ?thesis
    by blast
qed

lemma funpow_dead_fixed: "\<not> alive c \<Longrightarrow> (update P M T ^^ n) c = c"
  by (induction n) (simp_all add: update_def)

lemma wallCar_run:
  "(update stillPolicy [[1]] 1000 ^^ 3) wallCar
     = update stillPolicy [[1]] 1000 (update stillPolicy [[1]] 1000 (update stillPolicy [[1]] 1000 wallCar))"
  "n \<ge> 3 \<Longrightarrow> (update stillPolicy [[1]] 1000 ^^ n) wallCar = (update stillPolicy [[1]] 1000 ^^ 3) wallCar"
proof -
  let ?U = "update stillPolicy [[1]] 1000"
  show three: "(?U ^^ 3) wallCar = ?U (?U (?U wallCar))"
    by (simp add: eval_nat_numeral)
  have dead: "\<not> alive ((?U ^^ 3) wallCar)"
    unfolding three by (simp add: wallCar_tick3)
  show "(?U ^^ n) wallCar = (?U ^^ 3) wallCar" if "n \<ge> 3"
  proof -
    have "(?U ^^ n) wallCar = (?U ^^ (n - 3)) ((?U ^^ 3) wallCar)"
      using that funpow_add [of "n - 3" 3 ?U] by simp
    then show ?thesis
      using funpow_dead_fixed [OF dead] by simp
  qed
qed

lemma wallCar_slow:
  "\<forall>i\<in>{1..301}. mag (vel ((update stillPolicy [[1]] 1000 ^^ i) wallCar)) < 0.1"
proof
  let ?U = "update stillPolicy [[1]] 1000"
  fix i :: nat assume "i \<in> {1..301}"
  then consider "i = 1" | "i = 2" | "i \<ge> 3"
    by force
  then show "mag (vel ((?U ^^ i) wallCar)) < 0.1"
  proof cases
    case 1
    then show ?thesis by (simp add: wallCar_tick1 mag_def)
  next
    case 2
    then show ?thesis by (simp add: eval_nat_numeral wallCar_tick2 mag_def)
  next
    case 3
    then show ?thesis
      by (simp add: wallCar_run wallCar_tick3 mag_def)
  qed
qed

lemma funpow_split: "(f ^^ (m + n)) a = (f ^^ m) ((f ^^ n) a)"
  by (simp add: funpow_add)

lemma tiredCar_run:
  "tiredCar = (update stillPolicy [[0]] 1000 ^^ 200) roadCar"
  "(update stillPolicy [[0]] 1000 ^^ 100) tiredCar = roadCar\<lparr>framesAlive := 300, idleFrames := 300\<rparr>"
  "(update stillPolicy [[0]] 1000 ^^ 101) tiredCar
     = roadCar\<lparr>framesAlive := 301, idleFrames := 301, alive := False, score := - 100\<rparr>"
  "(update stillPolicy [[0]] 1000 ^^ 300) tiredCar = (update stillPolicy [[0]] 1000 ^^ 101) tiredCar"
  "(update stillPolicy [[0]] 1000 ^^ 301) tiredCar = (update stillPolicy [[0]] 1000 ^^ 101) tiredCar"
proof -
  let ?U = "update stillPolicy [[0]] 1000"
  show t: "tiredCar = (?U ^^ 200) roadCar"
    by (simp add: tiredCar_def roadCar_run)
  have a: "(?U ^^ 100) tiredCar = (?U ^^ 300) roadCar"
    unfolding t using funpow_split [where f = ?U and m = 100 and n = 200 and a = roadCar] by simp
  show "(?U ^^ 100) tiredCar = roadCar\<lparr>framesAlive := 300, idleFrames := 300\<rparr>"
    unfolding a by (simp add: roadCar_run)
  have b: "(?U ^^ 101) tiredCar = (?U ^^ 301) roadCar"
    unfolding t using funpow_split [where f = ?U and m = 101 and n = 200 and a = roadCar] by simp
  show d: "(?U ^^ 101) tiredCar
     = roadCar\<lparr>framesAlive := 301, idleFrames := 301, alive := False, score := - 100\<rparr>"
    unfolding b by (rule roadCar_run_301)
  have dead: "\<not> alive ((?U ^^ 101) tiredCar)"
    unfolding d by simp
  have "(?U ^^ 300) tiredCar = (?U ^^ 199) ((?U ^^ 101) tiredCar)"
    using funpow_split [where f = ?U and m = 199 and n = 101 and a = tiredCar] by simp
  then show "(?U ^^ 300) tiredCar = (?U ^^ 101) tiredCar"
    using funpow_dead_fixed [OF dead] by simp
  have "(?U ^^ 301) tiredCar = (?U ^^ 200) ((?U ^^ 101) tiredCar)"
    using funpow_split [where f = ?U and m = 200 and n = 101 and a = tiredCar] by simp
  then show "(?U ^^ 301) tiredCar = (?U ^^ 101) tiredCar"
    using funpow_dead_fixed [OF dead] by simp
qed

text \<open>
  The claim without the two conditions fails on the code. The car in the wall is alive
  and still on every tick, but its third collision halts it on tick 3: ticks 300 and 301
  change nothing, its idle counter stays at 3 and its score at -240. The still car that
  is 200 ticks into its stand is alive and stays still, but its idle counter passes 300
  on its 101st tick, and its 301st tick changes nothing.
\<close>

theorem idle_claim_counterexample:
  "alive wallCar
   \<and> vel (update stillPolicy [[1]] 1000 wallCar) = (0, 0)
   \<and> vel (update stillPolicy [[1]] 1000 (update stillPolicy [[1]] 1000 wallCar)) = (0, 0)
   \<and> vel ((update stillPolicy [[1]] 1000 ^^ 3) wallCar) = (0, 0)
   \<and> \<not> alive ((update stillPolicy [[1]] 1000 ^^ 3) wallCar)
   \<and> (update stillPolicy [[1]] 1000 ^^ 300) wallCar = (update stillPolicy [[1]] 1000 ^^ 3) wallCar
   \<and> (update stillPolicy [[1]] 1000 ^^ 301) wallCar = (update stillPolicy [[1]] 1000 ^^ 3) wallCar
   \<and> idleFrames ((update stillPolicy [[1]] 1000 ^^ 301) wallCar) = 3
   \<and> score ((update stillPolicy [[1]] 1000 ^^ 300) wallCar) = - 240
   \<and> score ((update stillPolicy [[1]] 1000 ^^ 301) wallCar) = - 240
   \<and> alive tiredCar
   \<and> idleFrames tiredCar = 200
   \<and> vel tiredCar = (0, 0)
   \<and> vel ((update stillPolicy [[0]] 1000 ^^ 100) tiredCar) = (0, 0)
   \<and> alive ((update stillPolicy [[0]] 1000 ^^ 100) tiredCar)
   \<and> \<not> alive ((update stillPolicy [[0]] 1000 ^^ 101) tiredCar)
   \<and> score ((update stillPolicy [[0]] 1000 ^^ 100) tiredCar) = 0
   \<and> score ((update stillPolicy [[0]] 1000 ^^ 101) tiredCar) = - 100
   \<and> (update stillPolicy [[0]] 1000 ^^ 301) tiredCar = (update stillPolicy [[0]] 1000 ^^ 300) tiredCar"
proof -
  let ?W = "update stillPolicy [[1]] 1000"
  let ?U = "update stillPolicy [[0]] 1000"
  have w0: "alive wallCar"
    by (simp add: wallCar_def newCar_single)
  have w1: "vel (?W wallCar) = (0, 0)"
    by (simp add: wallCar_tick1)
  have w2: "vel (?W (?W wallCar)) = (0, 0)"
    by (simp add: wallCar_tick2)
  have w3: "vel ((?W ^^ 3) wallCar) = (0, 0)" "\<not> alive ((?W ^^ 3) wallCar)"
    "idleFrames ((?W ^^ 3) wallCar) = 3" "score ((?W ^^ 3) wallCar) = - 240"
    unfolding wallCar_run(1) by (simp_all add: wallCar_tick3)
  have w300: "(?W ^^ 300) wallCar = (?W ^^ 3) wallCar"
    by (rule wallCar_run(2)) simp
  have w301: "(?W ^^ 301) wallCar = (?W ^^ 3) wallCar"
    by (rule wallCar_run(2)) simp
  have w4: "idleFrames ((?W ^^ 301) wallCar) = 3" "score ((?W ^^ 300) wallCar) = - 240"
    "score ((?W ^^ 301) wallCar) = - 240"
    unfolding w300 w301 by (rule w3)+
  have t0: "alive tiredCar" "idleFrames tiredCar = 200" "vel tiredCar = (0, 0)"
    by (simp_all add: tiredCar_def roadCar_fields)
  have t100: "vel ((?U ^^ 100) tiredCar) = (0, 0)" "alive ((?U ^^ 100) tiredCar)"
    "score ((?U ^^ 100) tiredCar) = 0"
    unfolding tiredCar_run(2) by (simp_all add: roadCar_fields)
  have t101: "\<not> alive ((?U ^^ 101) tiredCar)" "score ((?U ^^ 101) tiredCar) = - 100"
    unfolding tiredCar_run(3) by simp_all
  have t301: "(?U ^^ 301) tiredCar = (?U ^^ 300) tiredCar"
    unfolding tiredCar_run(4) tiredCar_run(5) by (rule refl)
  show ?thesis
    using w0 w1 w2 w3(1,2) w300 w301 w4 t0 t100(1,2) t101(1) t100(3) t101(2) t301
    by blast
qed


text \<open>The claim as it is worded, at the car in the wall.\<close>

lemma wallCar_refutes:
  "\<not> (alive wallCar \<and> (\<forall>i\<in>{1..301}. mag (vel ((update stillPolicy [[1]] 1000 ^^ i) wallCar)) < 0.1)
       \<longrightarrow> 300 < idleFrames ((update stillPolicy [[1]] 1000 ^^ 301) wallCar)
           \<and> score ((update stillPolicy [[1]] 1000 ^^ 301) wallCar)
               = score ((update stillPolicy [[1]] 1000 ^^ 300) wallCar) - 100)"
proof -
  let ?W = "update stillPolicy [[1]] 1000"
  have "alive wallCar"
    by (simp add: wallCar_def newCar_single)
  moreover have "idleFrames ((?W ^^ 301) wallCar) = 3"
    using wallCar_run(2) [of 301] by (simp add: wallCar_run(1) wallCar_tick3)
  ultimately show ?thesis
    using wallCar_slow by auto
qed

section \<open>The generation loop\<close>

lemma updateAll_fst: "fst (updateAll P M T cars t) = map (update P M T) cars"
  by (induction cars arbitrary: t) (simp_all add: Let_def)

lemma updateAll_snd: "snd (updateAll P M T cars t) = foldl account t (map (update P M T) cars)"
  by (induction cars arbitrary: t) (simp_all add: Let_def)

lemma account_dead: "\<not> alive car \<Longrightarrow> account t car = t"
  by (simp add: account_def)

lemma foldl_account_alive: "foldl account t cars = foldl account t (filter alive cars)"
  by (induction cars arbitrary: t) (simp_all add: account_dead)

lemma account_aliveCount:
  "aliveCount (account t car) = aliveCount t + (if alive car then 1 else 0)"
  by (simp add: account_def Let_def)

lemma foldl_account_aliveCount:
  "aliveCount (foldl account t cars) = aliveCount t + length (filter alive cars)"
  by (induction cars arbitrary: t) (simp_all add: account_aliveCount)

lemma updateAll_aliveCount:
  "aliveCount (snd (updateAll P M T (population s) tally0)) = survivors P M T s"
  by (simp add: updateAll_snd foldl_account_aliveCount survivors_def tally0_def)

lemma newGeneration_fields:
  "generation (newGeneration src M T sp s) = generation s"
  "frameCount (newGeneration src M T sp s) = 0"
  "transitioning (newGeneration src M T sp s) = False"
  "bestScoreEver (newGeneration src M T sp s) = bestScoreEver s"
  "eliteBrains (newGeneration src M T sp s) = eliteBrains s"
  "totalFinished (newGeneration src M T sp s) = totalFinished s"
  by (simp_all add: newGeneration_def)

lemma nextGeneration_fields:
  "generation (nextGeneration src M T sp s) = generation s + 1"
  "frameCount (nextGeneration src M T sp s) = 0"
  "transitioning (nextGeneration src M T sp s) = False"
  "bestScoreEver (nextGeneration src M T sp s) = bestScoreEver s"
  "eliteBrains (nextGeneration src M T sp s)
     = map (\<lambda>c. copiaCerebro (brain c)) (take ELITE_COUNT (ranked (population s)))"
  by (simp_all add: nextGeneration_def Let_def newGeneration_fields)

lemma draw_cases:
  assumes "\<not> transitioning s"
  shows "survivors P M T s = 0 \<or> frameCount s + 1 > MAX_FRAMES \<Longrightarrow>
           generation (draw P src M T sp s) = generation s + 1
           \<and> frameCount (draw P src M T sp s) = 0
           \<and> \<not> transitioning (draw P src M T sp s)"
    and "\<not> (survivors P M T s = 0 \<or> frameCount s + 1 > MAX_FRAMES) \<Longrightarrow>
           generation (draw P src M T sp s) = generation s
           \<and> frameCount (draw P src M T sp s) = frameCount s + 1
           \<and> \<not> transitioning (draw P src M T sp s)"
  using assms
  by (auto simp add: draw_def Let_def generationOver_def updateAll_aliveCount nextGeneration_fields
      split: option.splits)


text \<open>
  Claim C5. With the \<open>transitioning\<close> flag down, as every call of \<open>newGeneration\<close>
  leaves it, a tick moves on to the next generation exactly when no car is alive after
  the updates or the frame counter, once incremented, is above MAX_FRAMES = 3000. A tick
  that brings the counter to 3000 with a car still alive keeps the generation, and the
  tick after it moves on.
\<close>

theorem generation_ends:
  assumes "0 < T" and "\<not> transitioning s"
  shows "MAX_FRAMES = 3000
       \<and> (generation (draw P src M T sp s) = generation s + 1)
           = (survivors P M T s = 0 \<or> frameCount s + 1 > MAX_FRAMES)
       \<and> (generation (draw P src M T sp s) = generation s)
           = (\<not> (survivors P M T s = 0 \<or> frameCount s + 1 > MAX_FRAMES))
       \<and> \<not> transitioning (draw P src M T sp s)
       \<and> (frameCount s + 1 = MAX_FRAMES \<and> survivors P M T s > 0 \<longrightarrow>
            generation (draw P src M T sp s) = generation s
            \<and> frameCount (draw P src M T sp s) = MAX_FRAMES
            \<and> generation (draw P' src' M T sp (draw P src M T sp s)) = generation s + 1)"
proof -
  let ?s1 = "draw P src M T sp s"
  note d = draw_cases [OF assms(2), of P M T src sp]
  have m: "MAX_FRAMES = 3000"
    by (simp add: MAX_FRAMES_def)
  have g1: "(generation ?s1 = generation s + 1)
              = (survivors P M T s = 0 \<or> frameCount s + 1 > MAX_FRAMES)"
    using d by (cases "survivors P M T s = 0 \<or> frameCount s + 1 > MAX_FRAMES") simp_all
  have g0: "(generation ?s1 = generation s)
              = (\<not> (survivors P M T s = 0 \<or> frameCount s + 1 > MAX_FRAMES))"
    using d by (cases "survivors P M T s = 0 \<or> frameCount s + 1 > MAX_FRAMES") simp_all
  have t: "\<not> transitioning ?s1"
    using d by (cases "survivors P M T s = 0 \<or> frameCount s + 1 > MAX_FRAMES") simp_all
  have two: "generation ?s1 = generation s \<and> frameCount ?s1 = MAX_FRAMES
             \<and> generation (draw P' src' M T sp ?s1) = generation s + 1"
    if "frameCount s + 1 = MAX_FRAMES" and "survivors P M T s > 0"
  proof -
    have no: "\<not> (survivors P M T s = 0 \<or> frameCount s + 1 > MAX_FRAMES)"
      using that by simp
    have s1: "generation ?s1 = generation s" "frameCount ?s1 = MAX_FRAMES"
      using d(2) [OF no] that by simp_all
    have "survivors P' M T ?s1 = 0 \<or> frameCount ?s1 + 1 > MAX_FRAMES"
      using s1 by simp
    then have "generation (draw P' src' M T sp ?s1) = generation ?s1 + 1"
      using draw_cases(1) [OF t, of P' M T src' sp] by simp
    then show ?thesis using s1 by simp
  qed
  show ?thesis
    using m g1 g0 t two by blast
qed

lemma roadCar_first_tick:
  "update stillPolicy [[0]] 1000 roadCar = roadCar\<lparr>framesAlive := 1, idleFrames := 1\<rparr>"
  using roadCar_run [of "Suc 0"] by simp


theorem generation_ends_witness:
  "\<not> transitioning lastFrame
   \<and> frameCount lastFrame + 1 = MAX_FRAMES
   \<and> survivors stillPolicy [[0]] 1000 lastFrame = 1
   \<and> generation (draw stillPolicy plainSource [[0]] 1000 (500, 500) lastFrame) = 1
   \<and> frameCount (draw stillPolicy plainSource [[0]] 1000 (500, 500) lastFrame) = 3000
   \<and> generation (draw stillPolicy plainSource [[0]] 1000 (500, 500)
                   (draw stillPolicy plainSource [[0]] 1000 (500, 500) lastFrame)) = 2"
proof -
  have t: "\<not> transitioning lastFrame"
    by (simp add: lastFrame_def)
  have f: "frameCount lastFrame + 1 = MAX_FRAMES" "generation lastFrame = 1"
    by (simp_all add: lastFrame_def MAX_FRAMES_def)
  have a: "survivors stillPolicy [[0]] 1000 lastFrame = 1"
    by (simp add: survivors_def lastFrame_def roadCar_first_tick roadCar_fields)
  have "(0::real) < 1000"
    by simp
  from generation_ends [OF this t, where P = stillPolicy and M = "[[0]]" and src = plainSource
      and sp = "(500, 500)" and P' = stillPolicy and src' = plainSource]
    t f a
  show ?thesis
    by simp
qed


lemma collisionDetection_alive:
  "alive (collisionDetection M T c) \<Longrightarrow> alive c"
  by (simp add: collisionDetection_def Let_def split: if_splits)

lemma finishDetection_finished:
  "finished (finishDetection M T c) \<Longrightarrow> \<not> finished c \<Longrightarrow>
     \<not> alive (finishDetection M T c) \<and> score (finishDetection M T c) = score c + 2000
     \<and> \<not> hasCollided M T (finishDetection M T c)"
  by (auto simp add: finishDetection_def hasCollided_def outside_def Let_def split: if_splits)

lemma update_finishing:
  assumes "alive c" and "\<not> finished c" and "finished (update P M T c)"
  shows "\<not> alive (update P M T c) \<and> score (update P M T c) = score (beforeFinish P M T c) + 2000"
proof -
  let ?c1 = "idleCount (senseAndMove P M T c)"
  have nf: "\<not> finished ?c1"
    using assms(2) by (simp add: idleCount_keeps senseAndMove_keeps)
  have run: "\<not> idleFrames ?c1 > 300"
  proof
    assume "idleFrames ?c1 > 300"
    then have "update P M T c = ?c1\<lparr>alive := False, score := score ?c1 - 100\<rparr>"
      using assms(1) by (simp add: update_def Let_def)
    then show False using assms(3) nf by simp
  qed
  then have u: "update P M T c = collisionDetection M T (finishDetection M T (beforeFinish P M T c))"
    using assms(1) by (simp add: update_def Let_def scoring_def beforeFinish_def)
  have nf2: "\<not> finished (beforeFinish P M T c)"
    using nf by (simp add: beforeFinish_def progressBonus_keeps speedBonus_keeps)
  have "finished (finishDetection M T (beforeFinish P M T c))"
    using assms(3) by (simp add: u collisionDetection_keeps)
  from finishDetection_finished [OF this nf2] show ?thesis
    by (simp add: u collisionDetection_def)
qed

lemma update_keeps_halted:
  assumes "finished c \<longrightarrow> \<not> alive c"
  shows "finished (update P M T c) \<longrightarrow> \<not> alive (update P M T c)"
proof (cases "alive c")
  case False
  then show ?thesis using assms by (simp add: update_def)
next
  case True
  then have "\<not> finished c" using assms by blast
  then show ?thesis
    using update_finishing [OF True] by blast
qed

lemma map_update_halted:
  assumes "\<forall>c\<in>set cars. finished c \<longrightarrow> \<not> alive c"
  shows "filter alive (map (update P M T) cars)
           = filter (\<lambda>c. alive c \<and> \<not> finished c) (map (update P M T) cars)"
proof (rule filter_cong [OF refl])
  fix c' assume "c' \<in> set (map (update P M T) cars)"
  then obtain c where "c \<in> set cars" and "c' = update P M T c"
    by auto
  then show "alive c' = (alive c' \<and> \<not> finished c')"
    using assms update_keeps_halted [of c P M T] by blast
qed

lemma draw_bestScoreEver:
  "bestScoreEver (draw P src M T sp s)
     = (case leaderScore (snd (updateAll P M T (population s) tally0)) of
          None \<Rightarrow> bestScoreEver s
        | Some v \<Rightarrow> max (bestScoreEver s) v)"
  by (simp add: draw_def Let_def nextGeneration_fields split: option.splits)


lemma newCar_flags:
  "\<not> finished (newCar M T x0 y0 b)" "alive (newCar M T x0 y0 b)"
  by (simp_all add: newCar_def Let_def bfsDistanceToFinish_keeps)

lemma draw_population:
  assumes "c \<in> set (population (draw P src M T sp s))"
  shows "c \<in> set (map (update P M T) (population s)) \<or> \<not> finished c"
  using assms
  by (auto simp add: draw_def Let_def nextGeneration_def newGeneration_def updateAll_fst newCar_flags
      split: option.splits if_splits)


text \<open>
  Claim C10. For a population in which every finished car is halted (which \<open>update\<close>
  and \<open>newGeneration\<close> preserve), the tally of a tick is the tally of the cars that are
  alive and have not finished after their update, and so is the best score ever. A car
  that finishes on this tick gets its 2000 points and is halted at once: it is not among
  those cars.
\<close>

theorem leader_skips_finishers:
  assumes "0 < T" and "\<forall>c\<in>set (population s). finished c \<longrightarrow> \<not> alive c"
  shows "snd (updateAll P M T (population s) tally0) = foldl account tally0 (contenders P M T s)
       \<and> bestScoreEver (draw P src M T sp s)
           = (case leaderScore (foldl account tally0 (contenders P M T s)) of
                None \<Rightarrow> bestScoreEver s
              | Some v \<Rightarrow> max (bestScoreEver s) v)
       \<and> (\<forall>c\<in>set (population s). alive c \<and> \<not> finished c \<and> finished (update P M T c) \<longrightarrow>
             \<not> alive (update P M T c)
             \<and> score (update P M T c) = score (beforeFinish P M T c) + 2000
             \<and> update P M T c \<notin> set (contenders P M T s))
       \<and> (\<forall>c\<in>set (population (draw P src M T sp s)). finished c \<longrightarrow> \<not> alive c)"
proof -
  have one: "snd (updateAll P M T (population s) tally0) = foldl account tally0 (contenders P M T s)"
    using foldl_account_alive [of tally0 "map (update P M T) (population s)"]
      map_update_halted [OF assms(2), of P M T]
    by (simp add: updateAll_snd contenders_def)
  have two: "bestScoreEver (draw P src M T sp s)
           = (case leaderScore (foldl account tally0 (contenders P M T s)) of
                None \<Rightarrow> bestScoreEver s
              | Some v \<Rightarrow> max (bestScoreEver s) v)"
    using one by (simp add: draw_bestScoreEver)
  have three: "\<not> alive (update P M T c)
             \<and> score (update P M T c) = score (beforeFinish P M T c) + 2000
             \<and> update P M T c \<notin> set (contenders P M T s)"
    if "alive c" "\<not> finished c" "finished (update P M T c)" for c
    using update_finishing [OF that] by (simp add: contenders_def)
  have four: "\<forall>c\<in>set (population (draw P src M T sp s)). finished c \<longrightarrow> \<not> alive c"
  proof
    fix c assume "c \<in> set (population (draw P src M T sp s))"
    then consider c0 where "c0 \<in> set (population s)" and "c = update P M T c0" | "\<not> finished c"
      using draw_population [of c P src M T sp s] by auto
    then show "finished c \<longrightarrow> \<not> alive c"
    proof cases
      case 1
      then show ?thesis
        using assms(2) update_keeps_halted [of c0 P M T] by blast
    next
      case 2
      then show ?thesis by simp
    qed
  qed
  show ?thesis
    using one two three four by blast
qed

lemma scanFinish_goalTrack: "scanFinish goalTrack = [(1, 0)]"
  by (simp add: scanFinish_def goalTrack_def)

lemma bfs_goalTrack: "bfs goalTrack 1000 (0, 0) [(1, 0)] = 1000" "bfs goalTrack 1000 (1, 0) [(1, 0)] = 0"
  by (simp_all add: bfs_def atTarget_def goalTrack_def dirs_def visitDir_def tileWalkable_def
      outside_def tileAt_def Let_def)

lemma nearCar_eq:
  "nearCar =
     \<lparr>x = 500, y = 500, vel = (0, 0), angle = 0, alive = True, finished = False,
      brain = copiaCerebro zeroBrain, sensors = initialSensors,
      readings = [200, 200, 200, 200, 200, 200, 200, 200, 200],
      score = 0, distanceTravelled = 0, lastPosition = (500, 500),
      accumulatedSpeed = 0, framesAlive = 0, idleFrames = 0, collisions = 0,
      finishCache = Some [(1, 0)], distanceCache = [((0, 0), 1000)],
      distToFinish = 1000, bestDist = 1000\<rparr>"
  by (simp add: nearCar_def newCar_def bfsDistanceToFinish_def finishTiles_def scanFinish_goalTrack
      bfs_goalTrack Let_def initialSensors_def)

lemma goalCar_eq:
  "goalCar =
     \<lparr>x = 1500, y = 500, vel = (0, 0), angle = 0, alive = True, finished = False,
      brain = copiaCerebro zeroBrain, sensors = initialSensors,
      readings = [200, 200, 200, 200, 200, 200, 200, 200, 200],
      score = 0, distanceTravelled = 0, lastPosition = (1500, 500),
      accumulatedSpeed = 0, framesAlive = 0, idleFrames = 0, collisions = 0,
      finishCache = Some [(1, 0)], distanceCache = [((1, 0), 0)],
      distToFinish = 0, bestDist = 0\<rparr>"
  by (simp add: goalCar_def newCar_def bfsDistanceToFinish_def finishTiles_def scanFinish_goalTrack
      bfs_goalTrack Let_def initialSensors_def)

lemma rayFrom_goalTrack:
  "rayFrom [[0, 2]] 1000 500 500 ang 0 = 200"
  "rayFrom [[0, 2]] 1000 1500 500 ang 0 = 200"
  by (rule rayFrom_inside [where col = 0 and row = 0], simp_all add: outside_def tileAt_def)
     (rule rayFrom_inside [where col = 1 and row = 0], simp_all add: outside_def tileAt_def)

lemma nearCar_tick:
  "update stillPolicy goalTrack 1000 nearCar = nearCar\<lparr>framesAlive := 1, idleFrames := 1\<rparr>"
  unfolding nearCar_eq
  by (simp add: tick_defs rayFrom_goalTrack outside_def tileAt_def initialSensors_def goalTrack_def)

lemma goalCar_tick:
  "update stillPolicy goalTrack 1000 goalCar
     = goalCar\<lparr>framesAlive := 1, idleFrames := 1, finished := True, score := 2000, alive := False\<rparr>"
  unfolding goalCar_eq
  by (simp add: tick_defs rayFrom_goalTrack outside_def tileAt_def initialSensors_def goalTrack_def)

lemma nearCar_fields:
  "alive nearCar" "\<not> finished nearCar" "score nearCar = 0"
  by (simp_all add: nearCar_eq)

theorem leader_skips_finishers_witness:
  "score (update stillPolicy goalTrack 1000 goalCar) = 2000
   \<and> finished (update stillPolicy goalTrack 1000 goalCar)
   \<and> \<not> alive (update stillPolicy goalTrack 1000 goalCar)
   \<and> leaderScore (snd (updateAll stillPolicy goalTrack 1000 (population arrival) tally0)) = Some 0
   \<and> bestScoreEver (draw stillPolicy plainSource goalTrack 1000 (500, 500) arrival) = 0"
proof -
  have inv: "\<forall>c\<in>set (population arrival). finished c \<longrightarrow> \<not> alive c"
    by (simp add: arrival_def goalCar_eq nearCar_eq)
  have c: "contenders stillPolicy goalTrack 1000 arrival = [nearCar\<lparr>framesAlive := 1, idleFrames := 1\<rparr>]"
    by (simp add: contenders_def arrival_def goalCar_tick nearCar_tick nearCar_fields)
  have l: "leaderScore (foldl account tally0 (contenders stillPolicy goalTrack 1000 arrival)) = Some 0"
    unfolding c by (simp add: account_def tally0_def exceeds_def nearCar_fields Let_def)
  have b: "bestScoreEver arrival = 0"
    by (simp add: arrival_def)
  have g: "score (update stillPolicy goalTrack 1000 goalCar) = 2000"
    "finished (update stillPolicy goalTrack 1000 goalCar)"
    "\<not> alive (update stillPolicy goalTrack 1000 goalCar)"
    by (simp_all add: goalCar_tick)
  have "(0::real) < 1000"
    by simp
  from leader_skips_finishers [OF this inv, where P = stillPolicy and M = goalTrack
      and src = plainSource and sp = "(500, 500)"] l b g
  show ?thesis
    by simp
qed


lemma copiaCerebro_same: "copiaCerebro b = b"
  by (simp add: copiaCerebro_def clone_def map_idI)

lemma ranked_sorted:
  "sorted_wrt (\<lambda>a b. calcularFitness a \<ge> calcularFitness b) (ranked cars)"
  using sorted_sort_key [of "\<lambda>c. - calcularFitness c" cars]
  by (simp add: ranked_def sorted_map)

lemma ranked_stable:
  "filter (\<lambda>c. calcularFitness c = k) (ranked cars) = filter (\<lambda>c. calcularFitness c = k) cars"
  using sort_key_stable [of "\<lambda>c. - calcularFitness c" "- k" cars]
  by (simp add: ranked_def)

lemma ranked_top:
  assumes "e \<in> set (take n (ranked cars))" and "c \<in> set (drop n (ranked cars))"
  shows "calcularFitness c \<le> calcularFitness e"
proof -
  have "sorted_wrt (\<lambda>a b. calcularFitness a \<ge> calcularFitness b)
          (take n (ranked cars) @ drop n (ranked cars))"
    using ranked_sorted [of cars] by simp
  then show ?thesis
    using assms unfolding sorted_wrt_append by blast
qed


text \<open>
  Claim C8. \<open>nextGeneration\<close> ranks the population by descending fitness, keeping the
  order of cars of equal fitness, and the elite brains are the copies, equal to the
  originals, of the brains of the first ELITE_COUNT = 3 cars of the ranking: no car
  behind them has a higher fitness. \<open>draw\<close> does this with the updated population on the
  tick that ends a generation.
\<close>

theorem elites_top_ranked:
  "ELITE_COUNT = 3
   \<and> eliteBrains (nextGeneration src M T sp s)
       = map (\<lambda>c. copiaCerebro (brain c)) (take ELITE_COUNT (ranked (population s)))
   \<and> eliteBrains (nextGeneration src M T sp s) = map brain (take ELITE_COUNT (ranked (population s)))
   \<and> length (eliteBrains (nextGeneration src M T sp s)) = min ELITE_COUNT (length (population s))
   \<and> mset (ranked (population s)) = mset (population s)
   \<and> sorted_wrt (\<lambda>a b. calcularFitness a \<ge> calcularFitness b) (ranked (population s))
   \<and> (\<forall>k. filter (\<lambda>c. calcularFitness c = k) (ranked (population s))
            = filter (\<lambda>c. calcularFitness c = k) (population s))
   \<and> (\<forall>e\<in>set (take ELITE_COUNT (ranked (population s))).
         \<forall>c\<in>set (drop ELITE_COUNT (ranked (population s))).
           calcularFitness c \<le> calcularFitness e)
   \<and> (\<not> transitioning s \<and> (survivors P M T s = 0 \<or> frameCount s + 1 > MAX_FRAMES) \<longrightarrow>
        eliteBrains (draw P src M T sp s)
          = map brain (take ELITE_COUNT (ranked (map (update P M T) (population s)))))"
proof -
  have e: "eliteBrains (nextGeneration src M T sp s)
       = map (\<lambda>c. copiaCerebro (brain c)) (take ELITE_COUNT (ranked (population s)))"
    by (rule nextGeneration_fields)
  have m: "mset (ranked (population s)) = mset (population s)"
    by (simp add: ranked_def)
  have l: "length (ranked (population s)) = length (population s)"
    by (simp add: ranked_def)
  have d: "eliteBrains (draw P src M T sp s)
          = map brain (take ELITE_COUNT (ranked (map (update P M T) (population s))))"
    if "\<not> transitioning s" "survivors P M T s = 0 \<or> frameCount s + 1 > MAX_FRAMES"
    using that
    by (auto simp add: draw_def Let_def generationOver_def updateAll_aliveCount updateAll_fst
        nextGeneration_fields copiaCerebro_same split: option.splits)
  show ?thesis
    using e m l d ranked_sorted [of "population s"] ranked_stable [of _ "population s"]
      ranked_top [of _ ELITE_COUNT "population s"]
    by (simp add: ELITE_COUNT_def copiaCerebro_same)
qed

lemma scored_fields:
  "calcularFitness (scored k) = max 0 k" "brain (scored k) = flatBrain k"
  by (simp_all add: scored_def newCar_single calcularFitness_def Let_def copiaCerebro_same)

lemma ranked_standings:
  "ranked (population standings) = [scored 30, scored 20, scored 10, scored 5]"
  by (simp add: standings_def ranked_def scored_fields)

theorem elites_top_ranked_witness:
  "eliteBrains (nextGeneration plainSource [[0]] 1000 (500, 500) standings)
     = [flatBrain 30, flatBrain 20, flatBrain 10]"
  using elites_top_ranked [of plainSource "[[0]]" 1000 "(500, 500)" standings stillPolicy]
  by (simp add: ranked_standings scored_fields ELITE_COUNT_def copiaCerebro_same)


section \<open>Export and import of the weights\<close>

lemma tensorsFrom_export:
  assumes "list_all (\<lambda>w. length (dataSync w) = prod_list (shape w)) ws"
      and "length pre = i"
  shows "tensorsFrom (pre @ map shape ws) i (map dataSync ws) = Inr ws"
  using assms
proof (induction ws arbitrary: i pre)
  case Nil
  show ?case by simp
next
  case (Cons w ws)
  have rest: "tensorsFrom ((pre @ [shape w]) @ map shape ws) (i + 1) (map dataSync ws) = Inr ws"
    using Cons.prems by (intro Cons.IH) simp_all
  have here: "(pre @ map shape (w # ws)) ! i = shape w"
    using Cons.prems(2) by (simp add: nth_append)
  show ?case
    using Cons.prems rest here by (simp add: tf_tensor_def)
qed


text \<open>
  Claim C7. For two brains \<open>p\<close> and \<open>q\<close> of the topology (9 to 5, 5 to 2), importing
  into \<open>q\<close> what \<open>p\<close> exports succeeds and gives \<open>p\<close>: the same shapes and the same
  values. The values of a tensor are float32 numbers; \<open>Array.from\<close> and \<open>tf.tensor\<close>
  carry them to doubles and back unchanged, and the model keeps them as reals.
\<close>

theorem export_import_roundtrip:
  assumes "ofTopology p" and "ofTopology q"
  shows "importarPesos q (exportarPesos p) = Inr p
       \<and> importarPesos p (exportarPesos p) = Inr p
       \<and> map shape (weights p) = topology"
proof -
  have t: "tensorsFrom (shapes (exportarPesos p)) 0 (values' (exportarPesos p)) = Inr (weights p)"
    using assms(1) tensorsFrom_export [of "weights p" "[]" 0]
    by (simp add: exportarPesos_def ofTopology_def)
  have "setWeights b (weights p) = Inr p" if "ofTopology b" for b
  proof -
    have s: "map shape (weights b) = map shape (weights p)"
      using that assms(1) by (simp add: ofTopology_def)
    then have "length (weights b) = length (weights p)"
      using map_eq_imp_length_eq by blast
    then show ?thesis
      using s by (simp add: setWeights_def)
  qed
  then show ?thesis
    using t assms by (simp add: importarPesos_def ofTopology_def)
qed

theorem export_import_roundtrip_witness:
  "ofTopology (flatBrain 1) \<and> ofTopology zeroBrain
   \<and> importarPesos zeroBrain (exportarPesos (flatBrain 1)) = Inr (flatBrain 1)"
proof -
  have a: "ofTopology (flatBrain 1)" and b: "ofTopology zeroBrain"
    by (simp_all add: ofTopology_def topology_def flatBrain_def zeroBrain_def)
  from export_import_roundtrip [OF a b] a b show ?thesis
    by simp
qed

section \<open>The distance to the finish line\<close>

lemma atTarget_iff: "atTarget pos targets = (pos \<in> set targets)"
  by (auto simp: atTarget_def list_ex_iff prod_eq_iff)

lemma visitDir_queue:
  assumes "(p, n) \<in> set (snd (visitDir mapa pos steps vq d))"
  shows "(p, n) \<in> set (snd vq) \<or> (pos, p) \<in> moves mapa \<or> d \<notin> set dirs"
  using assms by (auto simp: visitDir_def moves_def Let_def split: if_splits)

lemma foldl_visitDir_queue:
  assumes "(p, n) \<in> set (snd (foldl (visitDir mapa pos steps) vq ds))" and "set ds \<subseteq> set dirs"
  shows "(p, n) \<in> set (snd vq) \<or> (pos, p) \<in> moves mapa"
  using assms
proof (induction ds arbitrary: vq)
  case Nil
  then show ?case by simp
next
  case (Cons d ds)
  then have "(p, n) \<in> set (snd (visitDir mapa pos steps vq d)) \<or> (pos, p) \<in> moves mapa"
    by simp
  then show ?case
    using visitDir_queue [of p n mapa pos steps vq d] Cons.prems(2) by auto
qed

lemma bfsLoop_sound:
  assumes "\<forall>pn\<in>set queue. reaches mapa start (fst pn)"
  shows "bfsLoop mapa tileSize targets visited queue = 9999
         \<or> (\<exists>t\<in>set targets. reaches mapa start t)"
  using assms
proof (induction mapa tileSize targets visited queue rule: bfsLoop.induct)
  case (1 mapa tileSize targets visited)
  show ?case by simp
next
  case (2 mapa tileSize targets visited pos steps queue)
  have pos: "reaches mapa start pos"
    using "2.prems" by simp
  show ?case
  proof (cases "atTarget pos targets")
    case True
    then show ?thesis
      using pos by (auto simp: atTarget_iff)
  next
    case False
    let ?r = "foldl (visitDir mapa pos steps) (visited, queue) dirs"
    have "\<forall>pn\<in>set (snd ?r). reaches mapa start (fst pn)"
    proof
      fix pn assume "pn \<in> set (snd ?r)"
      then have "(fst pn, snd pn) \<in> set (snd ?r)"
        by simp
      then have "(fst pn, snd pn) \<in> set queue \<or> (pos, fst pn) \<in> moves mapa"
        using foldl_visitDir_queue [of "fst pn" "snd pn" mapa pos steps "(visited, queue)" dirs]
        by simp
      then show "reaches mapa start (fst pn)"
      proof
        assume "(fst pn, snd pn) \<in> set queue"
        then show ?thesis using "2.prems" by auto
      next
        assume "(pos, fst pn) \<in> moves mapa"
        then show ?thesis
          using pos by (simp add: reaches_def)
      qed
    qed
    then have "bfsLoop mapa tileSize targets (fst ?r) (snd ?r) = 9999
               \<or> (\<exists>t\<in>set targets. reaches mapa start t)"
      using "2.IH" [OF False] by simp
    then show ?thesis
      using False by simp
  qed
qed

lemma bfs_unreachable:
  assumes "\<forall>t\<in>set targets. \<not> reaches mapa start t"
  shows "bfs mapa tileSize start targets = 9999"
proof -
  have "reaches mapa start start"
    by (simp add: reaches_def)
  then have "\<not> atTarget start targets"
    using assms by (auto simp: atTarget_iff)
  moreover have "bfsLoop mapa tileSize targets [start] [(start, 0)] = 9999"
    using bfsLoop_sound [of "[(start, 0)]" mapa start tileSize targets "[start]"] assms
    by (simp add: reaches_def)
  ultimately show ?thesis
    by (simp add: bfs_def)
qed

lemma cacheSound_lookup:
  assumes "cacheSound mapa tileSize c" and "map_of (distanceCache c) k = Some v"
  shows "v = bfs mapa tileSize k (scanFinish mapa)"
proof -
  have "(k, v) \<in> set (distanceCache c)"
    using assms(2) by (rule map_of_SomeD)
  then show ?thesis
    using assms(1) by (auto simp: cacheSound_def list_all_iff)
qed

lemma bfsDistanceToFinish_value:
  assumes "cacheSound mapa tileSize c"
  shows "fst (bfsDistanceToFinish mapa tileSize c) = 9999
         \<or> fst (bfsDistanceToFinish mapa tileSize c)
              = bfs mapa tileSize (carCell tileSize c) (scanFinish mapa)"
proof (cases "map_of (distanceCache c) (carCell tileSize c)")
  case (Some v)
  then show ?thesis
    using cacheSound_lookup [OF assms Some]
    by (simp add: bfsDistanceToFinish_def carCell_def Let_def)
next
  case None
  have "fst (finishTiles mapa c) = scanFinish mapa"
    using assms by (auto simp: finishTiles_def cacheSound_def split: option.splits)
  then show ?thesis
    using None
    by (simp add: bfsDistanceToFinish_def carCell_def Let_def case_prod_beta)
qed

lemma list_all_tl: "list_all P xs \<Longrightarrow> list_all P (tl xs)"
  by (cases xs) simp_all

lemma bfsDistanceToFinish_sound:
  assumes "cacheSound mapa tileSize c"
  shows "cacheSound mapa tileSize (snd (bfsDistanceToFinish mapa tileSize c))"
proof (cases "map_of (distanceCache c) (carCell tileSize c)")
  case (Some v)
  then show ?thesis
    using assms by (simp add: bfsDistanceToFinish_def carCell_def Let_def)
next
  case None
  let ?P = "\<lambda>kv. snd kv = bfs mapa tileSize (fst kv) (scanFinish mapa)"
  let ?c1 = "snd (finishTiles mapa c)"
  let ?k = "carCell tileSize c"
  let ?cache1 = "distanceCache ?c1 @ [(?k, bfs mapa tileSize ?k (scanFinish mapa))]"
  have f: "fst (finishTiles mapa c) = scanFinish mapa"
    using assms by (auto simp: finishTiles_def cacheSound_def split: option.splits)
  have s: "cacheSound mapa tileSize ?c1"
    using assms by (auto simp: finishTiles_def cacheSound_def split: option.splits)
  have all1: "list_all ?P ?cache1"
    using s by (simp add: cacheSound_def)
  then have all2: "list_all ?P (if length ?cache1 > 100 then tl ?cache1 else ?cache1)"
    using list_all_tl [of ?P ?cache1] by simp
  show ?thesis
  proof (cases "scanFinish mapa = []")
    case True
    then show ?thesis
      using None f s
      by (simp add: bfsDistanceToFinish_def carCell_def Let_def case_prod_beta)
  next
    case False
    have "snd (bfsDistanceToFinish mapa tileSize c)
            = ?c1\<lparr>distanceCache := (if length ?cache1 > 100 then tl ?cache1 else ?cache1)\<rparr>"
      using None f False
      by (simp add: bfsDistanceToFinish_def carCell_def Let_def case_prod_beta)
    then show ?thesis
      using s all2 unfolding cacheSound_def by simp
  qed
qed

text \<open>Every step of \<open>update\<close> but the distance query leaves the two caches alone.\<close>

lemma cacheSound_cong:
  assumes "finishCache c' = finishCache c" and "distanceCache c' = distanceCache c"
  shows "cacheSound mapa tileSize c' = cacheSound mapa tileSize c"
  using assms by (simp add: cacheSound_def)

lemma newCar_cacheSound: "cacheSound mapa tileSize (newCar mapa tileSize x0 y0 b)"
proof -
  let ?c0 = "\<lparr>x = x0, y = y0, vel = (0, 0), angle = 0, alive = True, finished = False,
                brain = copiaCerebro b, sensors = initialSensors,
                readings = replicate (length initialSensors) 200,
                score = 0, distanceTravelled = 0, lastPosition = (x0, y0),
                accumulatedSpeed = 0, framesAlive = 0, idleFrames = 0, collisions = 0,
                finishCache = None, distanceCache = [], distToFinish = 0, bestDist = 0\<rparr>"
  have "cacheSound mapa tileSize ?c0"
    by (simp add: cacheSound_def)
  then have "cacheSound mapa tileSize (snd (bfsDistanceToFinish mapa tileSize ?c0))"
    by (rule bfsDistanceToFinish_sound)
  then show ?thesis
    by (simp add: newCar_def Let_def cacheSound_def)
qed

lemma progressBonus_cacheSound:
  assumes "cacheSound mapa tileSize c"
  shows "cacheSound mapa tileSize (progressBonus mapa tileSize c)"
  using bfsDistanceToFinish_sound [OF assms]
  by (simp add: progressBonus_def Let_def cacheSound_def)

lemma update_cacheSound:
  assumes "cacheSound mapa tileSize c"
  shows "cacheSound mapa tileSize (update P mapa tileSize c)"
proof -
  let ?c1 = "idleCount (senseAndMove P mapa tileSize c)"
  have c1: "cacheSound mapa tileSize ?c1"
    using assms by (simp add: cacheSound_def idleCount_def senseAndMove_def Let_def)
  have "cacheSound mapa tileSize (speedBonus ?c1)"
    using c1 by (simp add: cacheSound_def speedBonus_def Let_def)
  then have "cacheSound mapa tileSize (progressBonus mapa tileSize (speedBonus ?c1))"
    by (rule progressBonus_cacheSound)
  then have "cacheSound mapa tileSize (scoring mapa tileSize ?c1)"
    by (simp add: scoring_def cacheSound_def finishDetection_def Let_def)
  then have "cacheSound mapa tileSize (collisionDetection mapa tileSize (scoring mapa tileSize ?c1))"
    by (simp add: cacheSound_def collisionDetection_def Let_def)
  then show ?thesis
    using assms c1 by (simp add: update_def Let_def cacheSound_def)
qed


text \<open>
  Claim C6. On a car with sound caches, the distance query answers 9999 when the map has
  no finish tile, and when no finish tile is reached from the car's cell by moves into
  walkable neighbours (the search itself answers 9999 there). The query, the update of
  the car and the constructor keep the caches sound, so this holds for every query of a
  car's life. The search is a total function: it ends on every grid and raises nothing.
\<close>

theorem unreachable_finish_sentinel:
  assumes "0 < tileSize" and "cacheSound mapa tileSize c"
  shows "(scanFinish mapa = [] \<longrightarrow> fst (bfsDistanceToFinish mapa tileSize c) = 9999)
       \<and> ((\<forall>t\<in>set (scanFinish mapa). \<not> reaches mapa (carCell tileSize c) t) \<longrightarrow>
            bfs mapa tileSize (carCell tileSize c) (scanFinish mapa) = 9999
            \<and> fst (bfsDistanceToFinish mapa tileSize c) = 9999)
       \<and> cacheSound mapa tileSize (snd (bfsDistanceToFinish mapa tileSize c))
       \<and> cacheSound mapa tileSize (update P mapa tileSize c)
       \<and> cacheSound mapa tileSize (newCar mapa tileSize x0 y0 b)"
proof -
  have far: "bfs mapa tileSize (carCell tileSize c) (scanFinish mapa) = 9999
             \<and> fst (bfsDistanceToFinish mapa tileSize c) = 9999"
    if "\<forall>t\<in>set (scanFinish mapa). \<not> reaches mapa (carCell tileSize c) t"
    using bfs_unreachable [OF that, of tileSize] bfsDistanceToFinish_value [OF assms(2)]
    by auto
  have none: "fst (bfsDistanceToFinish mapa tileSize c) = 9999" if "scanFinish mapa = []"
    using far that by simp
  show ?thesis
    using far none bfsDistanceToFinish_sound [OF assms(2)] update_cacheSound [OF assms(2)]
      newCar_cacheSound
    by blast
qed

lemma scanFinish_set:
  "set (scanFinish mapa)
     = {(int c, int r) | c r. r < length mapa \<and> c < length (mapa ! r) \<and> mapa ! r ! c = 2}"
  by (auto simp: scanFinish_def)

lemma newCar_position:
  "x (newCar mapa tileSize x0 y0 b) = x0" "y (newCar mapa tileSize x0 y0 b) = y0"
  by (simp_all add: newCar_def Let_def bfsDistanceToFinish_keeps)

lemma blockedTrack_stuck: "((0, 0), q) \<notin> moves blockedTrack"
  by (auto simp: moves_def dirs_def tileWalkable_def outside_def tileAt_def blockedTrack_def)

lemma blockedTrack_reaches: "reaches blockedTrack (0, 0) q \<Longrightarrow> q = (0, 0)"
  unfolding reaches_def
  by (induction rule: rtrancl_induct) (simp_all add: blockedTrack_stuck)

lemma scanFinish_blockedTrack: "scanFinish blockedTrack = [(2, 0)]"
  by (simp add: scanFinish_def blockedTrack_def)

lemma bfs_blockedTrack: "bfs blockedTrack 1000 (0, 0) [(2, 0)] = 9999"
  by (simp add: bfs_def atTarget_def blockedTrack_def dirs_def visitDir_def tileWalkable_def
      outside_def tileAt_def Let_def)

theorem unreachable_finish_sentinel_witness:
  "cacheSound blockedTrack 1000 blockedCar
   \<and> scanFinish blockedTrack = [(2, 0)]
   \<and> carCell 1000 blockedCar = (0, 0)
   \<and> \<not> reaches blockedTrack (0, 0) (2, 0)
   \<and> fst (bfsDistanceToFinish blockedTrack 1000 blockedCar) = 9999"
proof -
  have s: "cacheSound blockedTrack 1000 blockedCar"
    unfolding blockedCar_def by (rule newCar_cacheSound)
  have k: "carCell 1000 blockedCar = (0, 0)"
    by (simp add: carCell_def blockedCar_def newCar_position)
  have n: "\<not> reaches blockedTrack (0, 0) (2, 0)"
    using blockedTrack_reaches [of "(2, 0)"] by auto
  then have far: "\<forall>t\<in>set (scanFinish blockedTrack). \<not> reaches blockedTrack (carCell 1000 blockedCar) t"
    by (simp add: scanFinish_blockedTrack k)
  have "(0::real) < 1000"
    by simp
  from unreachable_finish_sentinel [OF this s] far s k n show ?thesis
    by (simp add: scanFinish_blockedTrack)
qed


end
